theory Spec2Isabelle
  imports Main
begin

section \<open>Python values and insertion-ordered dictionaries\<close>

text \<open>
  The values \<open>csv.DictReader\<close> puts into a row dictionary: a string read from the file,
  \<open>None\<close> (its \<open>restval\<close>, for a record shorter than the header) and a list of strings (stored
  under the key \<open>None\<close>, its \<open>restkey\<close>, for a record longer than the header).
\<close>

datatype pyval = Str string | PyNone | StrList "string list"

type_synonym pykey = "string option"

text \<open>A Python \<open>dict\<close> keeps insertion order; assigning to a present key keeps its place.\<close>

type_synonym ('k, 'v) pydict = "('k \<times> 'v) list"

fun dict_set :: "('k, 'v) pydict \<Rightarrow> 'k \<Rightarrow> 'v \<Rightarrow> ('k, 'v) pydict" where
  "dict_set [] k v = [(k, v)]"
| "dict_set ((k', v') # d) k v = (if k' = k then (k, v) # d else (k', v') # dict_set d k v)"

definition dict_get :: "('k, 'v) pydict \<Rightarrow> 'k \<Rightarrow> 'v option" where
  "dict_get d k = map_of d k"

definition dict_keys :: "('k, 'v) pydict \<Rightarrow> 'k list" where
  "dict_keys d = map fst d"

definition dict_of_pairs :: "('k \<times> 'v) list \<Rightarrow> ('k, 'v) pydict" where
  "dict_of_pairs ps = fold (\<lambda>(k, v) d. dict_set d k v) ps []"

type_synonym row = "(pykey, pyval) pydict"

datatype exn = KeyError string | ValueError | TypeError | FileNotFoundError

section \<open>CSV files, \<open>csv.DictReader\<close> and \<open>csv.DictWriter\<close>\<close>

text \<open>
  A CSV file is the list of records that \<open>csv.reader\<close> yields from it and \<open>csv.writer\<close>
  puts into it, the header first; a blank line is the record \<open>[]\<close>.
\<close>

type_synonym csv_file = "string list list"

definition reader_row :: "string list \<Rightarrow> string list \<Rightarrow> row" where
  "reader_row fieldnames r =
     (let d = dict_of_pairs (zip (map Some fieldnames) (map Str r));
          lf = length fieldnames;
          lr = length r
      in if lf < lr then dict_set d None (StrList (drop lf r))
         else if lf > lr then fold (\<lambda>key d'. dict_set d' (Some key) PyNone) (drop lr fieldnames) d
         else d)"

definition DictReader :: "csv_file \<Rightarrow> row list" where
  "DictReader f =
     (case f of [] \<Rightarrow> []
      | fieldnames # rs \<Rightarrow> map (reader_row fieldnames) (filter (\<lambda>r. r \<noteq> []) rs))"

text \<open>
  What \<open>csv.writer\<close> writes for a value: a string as it is, \<open>None\<close> as the empty string, anything
  else through \<open>str\<close>. Python's \<open>str\<close> of a list of strings is the parameter \<open>py_str\<close>.
\<close>

definition cell_text :: "(string list \<Rightarrow> string) \<Rightarrow> pyval \<Rightarrow> string" where
  "cell_text py_str v = (case v of Str s \<Rightarrow> s | PyNone \<Rightarrow> [] | StrList l \<Rightarrow> py_str l)"

definition key_text :: "pykey \<Rightarrow> string" where
  "key_text k = (case k of Some s \<Rightarrow> s | None \<Rightarrow> [])"

text \<open>\<open>DictWriter._dict_to_list\<close> with \<open>extrasaction = 'raise'\<close> and \<open>restval = ''\<close>.\<close>

definition dict_to_list :: "pykey list \<Rightarrow> row \<Rightarrow> exn + pyval list" where
  "dict_to_list fieldnames rowdict =
     (if list_ex (\<lambda>k. k \<notin> set fieldnames) (dict_keys rowdict) then Inl ValueError
      else Inr (map (\<lambda>key. case dict_get rowdict key of Some v \<Rightarrow> v | None \<Rightarrow> Str []) fieldnames))"

text \<open>
  \<open>writerows\<close> converts the rows one by one as it writes them: the records before a failing
  row are in the file when the exception leaves the \<open>with\<close> block.
\<close>

fun writerows :: "(string list \<Rightarrow> string) \<Rightarrow> pykey list \<Rightarrow> row list \<Rightarrow> csv_file \<Rightarrow> exn option \<times> csv_file" where
  "writerows py_str fieldnames [] out = (None, out)"
| "writerows py_str fieldnames (d # ds) out =
     (case dict_to_list fieldnames d of
        Inl e \<Rightarrow> (Some e, out)
      | Inr vs \<Rightarrow> writerows py_str fieldnames ds (out @ [map (cell_text py_str) vs]))"

section \<open>The data directory\<close>

text \<open>
  The tree below \<open>data/\<close>: session directories, in each the model directories, in each the CSV
  files by name. Session and model names are single path components.
\<close>

type_synonym path = "string \<times> string \<times> string"

type_synonym fs = "string \<rightharpoonup> (string \<rightharpoonup> (string \<rightharpoonup> csv_file))"

datatype io = Probe path | ProbeDir string | Mkdir "string \<times> string" | OpenRead path
  | OpenWrite path | Rmtree string

record world =
  tree :: fs
  trace :: "io list"

definition MODEL_NAMES :: "string list" where
  "MODEL_NAMES =
     [''qwen_CoT_video_image_info'', ''qwen_CoT_video_image_raw'', ''qwen_CoT_description_info'',
      ''qwen_video_image_info'', ''qwen_video_image_raw'', ''qwen_description_info'',
      ''smol_CoT_video_image_info'', ''smol_CoT_video_image_raw'', ''smol_CoT_description_info'',
      ''smol_video_image_info'', ''smol_video_image_raw'', ''smol_description_info'']"

definition get_model_dir :: "string \<Rightarrow> string \<Rightarrow> string \<times> string" where
  "get_model_dir uuid_str model_name = (uuid_str, model_name)"

definition get_csv_path :: "string \<Rightarrow> string \<Rightarrow> string \<Rightarrow> path" where
  "get_csv_path uuid_str model_name csv_type =
     (case get_model_dir uuid_str model_name of (u, m) \<Rightarrow> (u, m, csv_type @ ''.csv''))"

definition parent :: "path \<Rightarrow> string \<times> string" where
  "parent p = (case p of (u, m, f) \<Rightarrow> (u, m))"

definition lookup_file :: "fs \<Rightarrow> path \<Rightarrow> csv_file option" where
  "lookup_file t p =
     (case p of (u, m, f) \<Rightarrow>
        (case t u of None \<Rightarrow> None
         | Some sd \<Rightarrow> (case sd m of None \<Rightarrow> None | Some md \<Rightarrow> md f)))"

definition put_file :: "fs \<Rightarrow> path \<Rightarrow> csv_file \<Rightarrow> fs option" where
  "put_file t p c =
     (case p of (u, m, f) \<Rightarrow>
        (case t u of None \<Rightarrow> None
         | Some sd \<Rightarrow>
             (case sd m of None \<Rightarrow> None
              | Some md \<Rightarrow> Some (t(u \<mapsto> sd(m \<mapsto> md(f \<mapsto> c)))))))"

definition mkdir_tree :: "fs \<Rightarrow> string \<times> string \<Rightarrow> fs" where
  "mkdir_tree t d =
     (case d of (u, m) \<Rightarrow>
        (let sd = (case t u of None \<Rightarrow> Map.empty | Some sd' \<Rightarrow> sd');
             md = (case sd m of None \<Rightarrow> Map.empty | Some md' \<Rightarrow> md')
         in t(u \<mapsto> sd(m \<mapsto> md))))"

text \<open>\<open>Path.exists\<close>, \<open>Path.mkdir(parents=True, exist_ok=True)\<close>, \<open>open\<close> and \<open>shutil.rmtree\<close>.\<close>

definition path_exists :: "world \<Rightarrow> path \<Rightarrow> bool \<times> world" where
  "path_exists w p = (lookup_file (tree w) p \<noteq> None, w\<lparr>trace := trace w @ [Probe p]\<rparr>)"

definition dir_exists :: "world \<Rightarrow> string \<Rightarrow> bool \<times> world" where
  "dir_exists w u = (tree w u \<noteq> None, w\<lparr>trace := trace w @ [ProbeDir u]\<rparr>)"

definition mkdir_parents :: "world \<Rightarrow> string \<times> string \<Rightarrow> world" where
  "mkdir_parents w d = w\<lparr>tree := mkdir_tree (tree w) d, trace := trace w @ [Mkdir d]\<rparr>"

definition open_read :: "world \<Rightarrow> path \<Rightarrow> csv_file option \<times> world" where
  "open_read w p = (lookup_file (tree w) p, w\<lparr>trace := trace w @ [OpenRead p]\<rparr>)"

text \<open>Opening a file for writing fails when its directory does not exist.\<close>

definition open_write :: "world \<Rightarrow> path \<Rightarrow> csv_file \<Rightarrow> exn option \<times> world" where
  "open_write w p c =
     (case put_file (tree w) p c of
        None \<Rightarrow> (Some FileNotFoundError, w\<lparr>trace := trace w @ [OpenWrite p]\<rparr>)
      | Some t \<Rightarrow> (None, w\<lparr>tree := t, trace := trace w @ [OpenWrite p]\<rparr>))"

definition rmtree :: "world \<Rightarrow> string \<Rightarrow> world" where
  "rmtree w u = w\<lparr>tree := (tree w)(u := None), trace := trace w @ [Rmtree u]\<rparr>"

section \<open>The table generator\<close>

text \<open>Decimal rendering of a non-negative integer, as \<open>f'{i}'\<close> and \<open>f'{i:04d}'\<close> give it.\<close>

definition digit :: "nat \<Rightarrow> char" where
  "digit n = ''0123456789'' ! n"

fun dec :: "nat \<Rightarrow> string" where
  "dec n = (if n < 10 then [digit n] else dec (n div 10) @ [digit (n mod 10)])"

declare dec.simps [simp del]

definition dec04 :: "nat \<Rightarrow> string" where
  "dec04 n = replicate (4 - length (dec n)) (CHR ''0'') @ dec n"

definition categories :: "string list" where
  "categories = [''Electronics'', ''Clothing'', ''Home & Garden'', ''Sports'', ''Books'']"

definition brands :: "string list" where
  "brands = [''BrandA'', ''BrandB'', ''BrandC'', ''BrandD'', ''BrandE'']"

definition labels :: "string list" where
  "labels = [''Yes'', ''N/A'', ''No'']"

definition video_description_header :: "string list" where
  "video_description_header =
     [''product_id'', ''description_key1'', ''description_key2'', ''description_key3'']"

definition product_info_header :: "string list" where
  "product_info_header = [''product_id'', ''brand'', ''price'', ''spec'', ''category'']"

definition judgement_header :: "string list" where
  "judgement_header =
     [''product_id'', ''product_name'', ''category'', ''video_url'', ''thumbnail_url'',
      ''ground_truth_image_url'', ''label'', ''reason'']"

definition video_description_row :: "nat \<Rightarrow> string list" where
  "video_description_row i =
     [''P'' @ dec04 i,
      ''Video shows product features '' @ dec i,
      ''Duration: '' @ dec (30 + i mod 60) @ '' seconds'',
      ''Quality: '' @ (if i mod 3 = 0 then ''HD'' else ''Standard'')]"

definition product_info_row :: "nat \<Rightarrow> string list" where
  "product_info_row i =
     [''P'' @ dec04 i,
      brands ! (i mod length brands),
      ''$'' @ dec ((i * 10) mod 500 + 20),
      ''Model-'' @ dec i @ ''-XL'',
      categories ! (i mod length categories)]"

text \<open>
  \<open>random.choice(labels)\<close> is the parameter \<open>rnd\<close>: \<open>rnd i\<close> is the draw made for row \<open>i\<close>,
  reduced to an index into \<open>labels\<close>.
\<close>

definition reasons :: "nat \<Rightarrow> (string \<times> string) list" where
  "reasons i =
     [(''Yes'', ''Product clearly matches criteria '' @ dec i),
      (''N/A'', ''Product information insufficient for determination '' @ dec i),
      (''No'', ''Product does not meet the required standards '' @ dec i)]"

definition judgement_row :: "(nat \<Rightarrow> nat) \<Rightarrow> nat \<Rightarrow> string list" where
  "judgement_row rnd i =
     (let label = labels ! (rnd i mod length labels)
      in [''P'' @ dec04 i,
          ''Sample Product '' @ dec i,
          categories ! (i mod length categories),
          ''http://example.com/video'' @ dec i @ ''.mp4'',
          ''http://example.com/thumb'' @ dec i @ ''.jpg'',
          ''http://example.com/gt'' @ dec i @ ''.jpg'',
          label,
          (case map_of (reasons i) label of Some r \<Rightarrow> r | None \<Rightarrow> [])])"

text \<open>\<open>range(1, num_items + 1)\<close>.\<close>

definition range1 :: "int \<Rightarrow> nat list" where
  "range1 num_items = [1 ..< nat (num_items + 1)]"

definition create_sample_csv :: "(nat \<Rightarrow> nat) \<Rightarrow> world \<Rightarrow> path \<Rightarrow> string \<Rightarrow> int \<Rightarrow> exn option \<times> world" where
  "create_sample_csv rnd w filepath csv_type num_items =
     (let w1 = mkdir_parents w (parent filepath)
      in if csv_type = ''video_description'' then
           open_write w1 filepath
             (video_description_header # map video_description_row (range1 num_items))
         else if csv_type = ''product_info'' then
           open_write w1 filepath (product_info_header # map product_info_row (range1 num_items))
         else if csv_type = ''judgement'' then
           open_write w1 filepath (judgement_header # map (judgement_row rnd) (range1 num_items))
         else (None, w1))"

section \<open>Requests and responses\<close>

text \<open>
  A field of a JSON request body, as \<open>data.get\<close> returns it: absent or null, a string, or
  some other JSON value, of which only the truth value matters. A query parameter of a GET
  request is a string or absent. A response is the value the handler hands to \<open>jsonify\<close>,
  with its status code; an exception caught by the handler's \<open>except\<close> clause is the
  status 500 with the exception as message.
\<close>

datatype jarg = Absent | JStr string | JOther bool

definition truthy :: "jarg \<Rightarrow> bool" where
  "truthy a = (case a of Absent \<Rightarrow> False | JStr s \<Rightarrow> s \<noteq> [] | JOther b \<Rightarrow> b)"

definition is_in :: "jarg \<Rightarrow> string list \<Rightarrow> bool" where
  "is_in a xs = (case a of JStr s \<Rightarrow> s \<in> set xs | _ \<Rightarrow> False)"

definition truthy_q :: "string option \<Rightarrow> bool" where
  "truthy_q a = (case a of None \<Rightarrow> False | Some s \<Rightarrow> s \<noteq> [])"

definition is_in_q :: "string option \<Rightarrow> string list \<Rightarrow> bool" where
  "is_in_q a xs = (case a of Some s \<Rightarrow> s \<in> set xs | None \<Rightarrow> False)"

datatype msg = Text string | StrOf exn

datatype jval = V pyval | D row

type_synonym item = "(string, jval) pydict"

record results =
  counts :: "(pyval, nat) pydict"
  items :: "item list"

datatype payload = OkTrue | OkFalse msg | ErrorOnly msg
  | StatusMap "(string, string) pydict" | ResultMap results

datatype response = Response (payload: payload) (status_code: nat)

section \<open>The generation endpoints\<close>

definition generate :: "string \<Rightarrow> (nat \<Rightarrow> nat) \<Rightarrow> world \<Rightarrow> jarg \<Rightarrow> jarg \<Rightarrow> response \<times> world" where
  "generate csv_type rnd w uuid_str model =
     (if \<not> truthy uuid_str \<or> \<not> truthy model then
        (Response (OkFalse (Text ''Missing uuid or model'')) 400, w)
      else if \<not> is_in model MODEL_NAMES then
        (Response (OkFalse (Text ''Invalid model name'')) 400, w)
      else
        (case (uuid_str, model) of
           (JStr u, JStr m) \<Rightarrow>
             (case create_sample_csv rnd w (get_csv_path u m csv_type) csv_type 50 of
                (None, w') \<Rightarrow> (Response OkTrue 200, w')
              | (Some e, w') \<Rightarrow> (Response (OkFalse (StrOf e)) 500, w'))
         | _ \<Rightarrow> (Response (OkFalse (StrOf TypeError)) 500, w)))"

definition make_video_description :: "(nat \<Rightarrow> nat) \<Rightarrow> world \<Rightarrow> jarg \<Rightarrow> jarg \<Rightarrow> response \<times> world" where
  "make_video_description = generate ''video_description''"

definition make_product_info :: "(nat \<Rightarrow> nat) \<Rightarrow> world \<Rightarrow> jarg \<Rightarrow> jarg \<Rightarrow> response \<times> world" where
  "make_product_info = generate ''product_info''"

definition judge :: "(nat \<Rightarrow> nat) \<Rightarrow> world \<Rightarrow> jarg \<Rightarrow> jarg \<Rightarrow> response \<times> world" where
  "judge = generate ''judgement''"

section \<open>Status\<close>

definition complete_or_pending :: "bool \<Rightarrow> string" where
  "complete_or_pending b = (if b then ''complete'' else ''pending'')"

definition get_status :: "world \<Rightarrow> string option \<Rightarrow> string option \<Rightarrow> response \<times> world" where
  "get_status w uuid_str model =
     (if \<not> truthy_q uuid_str \<or> \<not> truthy_q model then
        (Response (ErrorOnly (Text ''Missing uuid or model'')) 400, w)
      else if \<not> is_in_q model MODEL_NAMES then
        (Response (ErrorOnly (Text ''Invalid model name'')) 400, w)
      else
        (case (uuid_str, model) of
           (Some u, Some m) \<Rightarrow>
             (let video_desc_path = get_csv_path u m ''video_description'';
                  product_info_path = get_csv_path u m ''product_info'';
                  judgement_path = get_csv_path u m ''judgement'';
                  (b1, w1) = path_exists w video_desc_path;
                  (b2, w2) = path_exists w1 product_info_path;
                  (b3, w3) = path_exists w2 judgement_path
              in (Response
                    (StatusMap
                       [(''video_description_csv'', complete_or_pending b1),
                        (''product_info_csv'', complete_or_pending b2),
                        (''judgement_csv'', complete_or_pending b3)])
                    200, w3))
         | _ \<Rightarrow> (Response (ErrorOnly (StrOf TypeError)) 500, w)))"

section \<open>Results: the join of the three tables\<close>

definition hashable :: "pyval \<Rightarrow> bool" where
  "hashable v = (case v of StrList l \<Rightarrow> False | _ \<Rightarrow> True)"

definition bind :: "exn + 'a \<Rightarrow> ('a \<Rightarrow> exn + 'b) \<Rightarrow> exn + 'b" where
  "bind x f = (case x of Inl e \<Rightarrow> Inl e | Inr a \<Rightarrow> f a)"

definition getitem :: "row \<Rightarrow> string \<Rightarrow> exn + pyval" where
  "getitem r k = (case dict_get r (Some k) of None \<Rightarrow> Inl (KeyError k) | Some v \<Rightarrow> Inr v)"

definition without_product_id :: "row \<Rightarrow> row" where
  "without_product_id r = filter (\<lambda>(k, v). k \<noteq> Some ''product_id'') r"

text \<open>The loops that fill \<open>video_descriptions\<close> and \<open>product_infos\<close>.\<close>

fun load_keyed :: "row list \<Rightarrow> (pyval, row) pydict \<Rightarrow> exn + (pyval, row) pydict" where
  "load_keyed [] acc = Inr acc"
| "load_keyed (r # rs) acc =
     bind (getitem r ''product_id'')
       (\<lambda>product_id.
          if hashable product_id then load_keyed rs (dict_set acc product_id (without_product_id r))
          else Inl TypeError)"

definition get_or_empty :: "(pyval, row) pydict \<Rightarrow> pyval \<Rightarrow> row" where
  "get_or_empty d k = (case dict_get d k of Some r \<Rightarrow> r | None \<Rightarrow> [])"

definition make_item :: "(pyval, row) pydict \<Rightarrow> (pyval, row) pydict \<Rightarrow> row \<Rightarrow> exn + pyval \<times> item" where
  "make_item video_descriptions product_infos r =
     bind (getitem r ''product_id'') (\<lambda>product_id.
     bind (getitem r ''label'') (\<lambda>label.
     bind (getitem r ''product_name'') (\<lambda>product_name.
     bind (getitem r ''category'') (\<lambda>category.
     bind (getitem r ''video_url'') (\<lambda>video_url.
     bind (getitem r ''thumbnail_url'') (\<lambda>thumbnail_url.
     bind (getitem r ''ground_truth_image_url'') (\<lambda>ground_truth_image_url.
     bind (getitem r ''reason'') (\<lambda>reason.
       if hashable product_id then
         Inr (label,
           [(''product_id'', V product_id),
            (''product_name'', V product_name),
            (''category'', V category),
            (''video_url'', V video_url),
            (''thumbnail_url'', V thumbnail_url),
            (''ground_truth_image_url'', V ground_truth_image_url),
            (''label'', V label),
            (''reason'', V reason),
            (''video_description'', D (get_or_empty video_descriptions product_id)),
            (''product_info'', D (get_or_empty product_infos product_id))])
       else Inl TypeError))))))))"

definition count_label :: "(pyval, nat) pydict \<Rightarrow> pyval \<Rightarrow> exn + (pyval, nat) pydict" where
  "count_label label_counts label =
     (if \<not> hashable label then Inl TypeError
      else (case dict_get label_counts label of
              Some n \<Rightarrow> Inr (dict_set label_counts label (n + 1))
            | None \<Rightarrow> Inr label_counts))"

fun judgement_loop :: "(pyval, row) pydict \<Rightarrow> (pyval, row) pydict \<Rightarrow> row list \<Rightarrow> item list \<Rightarrow>
    (pyval, nat) pydict \<Rightarrow> exn + results" where
  "judgement_loop vds pis [] its label_counts = Inr \<lparr>counts = label_counts, items = its\<rparr>"
| "judgement_loop vds pis (r # rs) its label_counts =
     bind (make_item vds pis r) (\<lambda>(label, it).
     bind (count_label label_counts label) (\<lambda>label_counts'.
       judgement_loop vds pis rs (its @ [it]) label_counts'))"

definition read_table :: "world \<Rightarrow> path \<Rightarrow> (exn + row list) \<times> world" where
  "read_table w p =
     (case open_read w p of
        (None, w') \<Rightarrow> (Inl FileNotFoundError, w')
      | (Some f, w') \<Rightarrow> (Inr (DictReader f), w'))"

definition error500 :: "exn \<Rightarrow> response" where
  "error500 e = Response (ErrorOnly (StrOf e)) 500"

definition get_results :: "world \<Rightarrow> string option \<Rightarrow> string option \<Rightarrow> response \<times> world" where
  "get_results w uuid_str model =
     (if \<not> truthy_q uuid_str \<or> \<not> truthy_q model then
        (Response (ErrorOnly (Text ''Missing uuid or model'')) 400, w)
      else if \<not> is_in_q model MODEL_NAMES then
        (Response (ErrorOnly (Text ''Invalid model name'')) 400, w)
      else
        (case (uuid_str, model) of
           (Some u, Some m) \<Rightarrow>
             (let video_desc_path = get_csv_path u m ''video_description'';
                  product_info_path = get_csv_path u m ''product_info'';
                  judgement_path = get_csv_path u m ''judgement'';
                  (b1, w1) = path_exists w video_desc_path;
                  (b2, w2) = path_exists w1 product_info_path;
                  (b3, w3) = path_exists w2 judgement_path
              in if \<not> (b1 \<and> b2 \<and> b3) then
                   (Response (ErrorOnly (Text ''Not all required CSV files exist'')) 400, w3)
                 else
                   (case read_table w3 video_desc_path of
                      (Inl e, w4) \<Rightarrow> (error500 e, w4)
                    | (Inr vrows, w4) \<Rightarrow>
                   (case load_keyed vrows [] of
                      Inl e \<Rightarrow> (error500 e, w4)
                    | Inr video_descriptions \<Rightarrow>
                   (case read_table w4 product_info_path of
                      (Inl e, w5) \<Rightarrow> (error500 e, w5)
                    | (Inr prows, w5) \<Rightarrow>
                   (case load_keyed prows [] of
                      Inl e \<Rightarrow> (error500 e, w5)
                    | Inr product_infos \<Rightarrow>
                   (case read_table w5 judgement_path of
                      (Inl e, w6) \<Rightarrow> (error500 e, w6)
                    | (Inr jrows, w6) \<Rightarrow>
                   (case judgement_loop video_descriptions product_infos jrows []
                           [(Str ''Yes'', 0), (Str ''N/A'', 0), (Str ''No'', 0)] of
                      Inl e \<Rightarrow> (error500 e, w6)
                    | Inr result \<Rightarrow> (Response (ResultMap result) 200, w6))))))))
         | _ \<Rightarrow> (Response (ErrorOnly (StrOf TypeError)) 500, w)))"

section \<open>Label override and clear\<close>

text \<open>
  \<open>row['product_id'] == product_id\<close>: a value read under a column name is a string or \<open>None\<close>,
  and the request's \<open>product_id\<close> is not \<open>None\<close> here, so they are equal only as equal strings.
\<close>

definition py_eq :: "pyval \<Rightarrow> jarg \<Rightarrow> bool" where
  "py_eq v a = (case (v, a) of (Str s, JStr t) \<Rightarrow> s = t | _ \<Rightarrow> False)"

fun override_rows :: "jarg \<Rightarrow> string \<Rightarrow> row list \<Rightarrow> exn + row list" where
  "override_rows product_id new_label [] = Inr []"
| "override_rows product_id new_label (r # rs) =
     bind (getitem r ''product_id'') (\<lambda>v.
     bind (override_rows product_id new_label rs) (\<lambda>rs'.
       Inr ((if py_eq v product_id then dict_set r (Some ''label'') (Str new_label) else r) # rs')))"

definition rewrite :: "(string list \<Rightarrow> string) \<Rightarrow> row list \<Rightarrow> exn option \<times> csv_file" where
  "rewrite py_str rows =
     (let fieldnames = dict_keys (hd rows)
      in writerows py_str fieldnames rows [map key_text fieldnames])"

definition ok500 :: "exn \<Rightarrow> response" where
  "ok500 e = Response (OkFalse (StrOf e)) 500"

definition override_label :: "(string list \<Rightarrow> string) \<Rightarrow> world \<Rightarrow> jarg \<Rightarrow> jarg \<Rightarrow> jarg \<Rightarrow> jarg \<Rightarrow>
    response \<times> world" where
  "override_label py_str w uuid_str model product_id new_label =
     (if \<not> (truthy uuid_str \<and> truthy model \<and> truthy product_id \<and> truthy new_label) then
        (Response (OkFalse (Text ''Missing required parameters'')) 400, w)
      else if \<not> is_in model MODEL_NAMES then
        (Response (OkFalse (Text ''Invalid model name'')) 400, w)
      else if \<not> is_in new_label [''Yes'', ''N/A'', ''No''] then
        (Response (OkFalse (Text ''Invalid label'')) 400, w)
      else
        (case (uuid_str, model, new_label) of
           (JStr u, JStr m, JStr l) \<Rightarrow>
             (let judgement_path = get_csv_path u m ''judgement'';
                  (b, w1) = path_exists w judgement_path
              in if \<not> b then (Response (OkFalse (Text ''Judgement CSV not found'')) 400, w1)
                 else
                   (case read_table w1 judgement_path of
                      (Inl e, w2) \<Rightarrow> (ok500 e, w2)
                    | (Inr rows0, w2) \<Rightarrow>
                   (case override_rows product_id l rows0 of
                      Inl e \<Rightarrow> (ok500 e, w2)
                    | Inr rows \<Rightarrow>
                        if rows \<noteq> [] then
                          (case rewrite py_str rows of
                             (err, content) \<Rightarrow>
                               (case open_write w2 judgement_path content of
                                  (Some e, w3) \<Rightarrow> (ok500 e, w3)
                                | (None, w3) \<Rightarrow>
                                    (case err of
                                       Some e \<Rightarrow> (ok500 e, w3)
                                     | None \<Rightarrow> (Response OkTrue 200, w3))))
                        else (Response OkTrue 200, w2))))
         | _ \<Rightarrow> (ok500 TypeError, w)))"

definition clear_all :: "world \<Rightarrow> jarg \<Rightarrow> response \<times> world" where
  "clear_all w uuid_str =
     (if \<not> truthy uuid_str then (Response (OkFalse (Text ''Missing uuid'')) 400, w)
      else
        (case uuid_str of
           JStr u \<Rightarrow>
             (case dir_exists w u of
                (True, w1) \<Rightarrow> (Response OkTrue 200, rmtree w1 u)
              | (False, w1) \<Rightarrow> (Response OkTrue 200, w1))
         | _ \<Rightarrow> (ok500 TypeError, w)))"

section \<open>Notions used in the statements\<close>

definition table_exists :: "fs \<Rightarrow> string \<Rightarrow> string \<Rightarrow> string \<Rightarrow> bool" where
  "table_exists t u m kind = (lookup_file t (get_csv_path u m kind) \<noteq> None)"

text \<open>The file system calls an operation made: what it appended to the trace.\<close>

definition new_events :: "world \<Rightarrow> world \<Rightarrow> io list" where
  "new_events w w' = drop (length (trace w)) (trace w')"

definition status_keys :: "response \<Rightarrow> string list" where
  "status_keys r = (case payload r of StatusMap sm \<Rightarrow> dict_keys sm | _ \<Rightarrow> [])"

text \<open>The three table kinds, and what the generator writes for each: header and data rows.\<close>

definition kinds :: "string list" where
  "kinds = [''video_description'', ''product_info'', ''judgement'']"

definition fixed_header :: "string \<Rightarrow> string list" where
  "fixed_header kind =
     (if kind = ''video_description'' then video_description_header
      else if kind = ''product_info'' then product_info_header
      else judgement_header)"

definition sample_rows :: "(nat \<Rightarrow> nat) \<Rightarrow> string \<Rightarrow> int \<Rightarrow> string list list" where
  "sample_rows rnd kind n =
     (if kind = ''video_description'' then map video_description_row (range1 n)
      else if kind = ''product_info'' then map product_info_row (range1 n)
      else map (judgement_row rnd) (range1 n))"

text \<open>Reading a decimal numeral back, to show that rendering is injective.\<close>

definition digit_val :: "char \<Rightarrow> nat" where
  "digit_val c = of_char c - 48"

definition undec :: "string \<Rightarrow> nat" where
  "undec s = foldl (\<lambda>a c. 10 * a + digit_val c) 0 s"

definition row_product_id :: "row \<Rightarrow> pyval option" where
  "row_product_id r = dict_get r (Some ''product_id'')"

text \<open>
  The join as the specification words it: the entry of a keyed table for a product identifier
  is the last row with that identifier, without its \<open>product_id\<close> column; an item is the
  judgement row's fields with the two entries, or empty mappings.
\<close>

definition lookup_last :: "row list \<Rightarrow> pyval \<Rightarrow> row option" where
  "lookup_last rows k =
     map_option without_product_id (find (\<lambda>r. row_product_id r = Some k) (rev rows))"

definition entry_or_empty :: "row list \<Rightarrow> pyval \<Rightarrow> row" where
  "entry_or_empty rows k = (case lookup_last rows k of Some e \<Rightarrow> e | None \<Rightarrow> [])"

definition field :: "row \<Rightarrow> string \<Rightarrow> pyval" where
  "field r k = (case dict_get r (Some k) of Some v \<Rightarrow> v | None \<Rightarrow> PyNone)"

definition joined_item :: "row list \<Rightarrow> row list \<Rightarrow> row \<Rightarrow> item" where
  "joined_item vrows prows r =
     [(''product_id'', V (field r ''product_id'')),
      (''product_name'', V (field r ''product_name'')),
      (''category'', V (field r ''category'')),
      (''video_url'', V (field r ''video_url'')),
      (''thumbnail_url'', V (field r ''thumbnail_url'')),
      (''ground_truth_image_url'', V (field r ''ground_truth_image_url'')),
      (''label'', V (field r ''label'')),
      (''reason'', V (field r ''reason'')),
      (''video_description'', D (entry_or_empty vrows (field r ''product_id''))),
      (''product_info'', D (entry_or_empty prows (field r ''product_id'')))]"

definition label_count :: "row list \<Rightarrow> string \<Rightarrow> nat" where
  "label_count rows l = length (filter (\<lambda>r. dict_get r (Some ''label'') = Some (Str l)) rows)"

definition has_columns :: "csv_file \<Rightarrow> string list \<Rightarrow> bool" where
  "has_columns f cols = (case f of [] \<Rightarrow> False | h # rs \<Rightarrow> set cols \<subseteq> set h)"

definition complete_row :: "row \<Rightarrow> bool" where
  "complete_row r = (\<forall>k\<in>set judgement_header. \<exists>v. getitem r k = Inr v \<and> hashable v)"

definition results_trace :: "string \<Rightarrow> string \<Rightarrow> io list" where
  "results_trace u m =
     [Probe (get_csv_path u m ''video_description''), Probe (get_csv_path u m ''product_info''),
      Probe (get_csv_path u m ''judgement''), OpenRead (get_csv_path u m ''video_description''),
      OpenRead (get_csv_path u m ''product_info''), OpenRead (get_csv_path u m ''judgement'')]"

text \<open>
  A table whose records all have as many fields as its header, the header's names distinct,
  and the row dictionary that \<open>DictReader\<close> yields for a record of such a table. What the
  override does to a row, in the specification's words.
\<close>

definition str_row :: "string list \<Rightarrow> string list \<Rightarrow> row" where
  "str_row h s = zip (map Some h) (map Str s)"

definition override_row :: "string \<Rightarrow> string \<Rightarrow> row \<Rightarrow> row" where
  "override_row k l d =
     (if row_product_id d = Some (Str k) then dict_set d (Some ''label'') (Str l) else d)"

definition rectangular :: "csv_file \<Rightarrow> bool" where
  "rectangular f =
     (case f of [] \<Rightarrow> False | h # rs \<Rightarrow> distinct h \<and> (\<forall>r\<in>set rs. length r = length h))"

text \<open>Example tables.\<close>

definition example_video_description :: csv_file where
  "example_video_description =
     [[''product_id'', ''description_key1''], [''P0001'', ''a''], [''P0002'', ''b'']]"

definition example_product_info :: csv_file where
  "example_product_info = [[''product_id'', ''brand''], [''P0001'', ''x''], [''P0003'', ''y'']]"

definition example_judgement :: csv_file where
  "example_judgement =
     [judgement_header,
      [''P0002'', ''n'', ''c'', ''v'', ''t'', ''g'', ''Yes'', ''r''],
      [''P0001'', ''n'', ''c'', ''v'', ''t'', ''g'', ''No'', ''r''],
      [''P0003'', ''n'', ''c'', ''v'', ''t'', ''g'', ''Yes'', ''r''],
      [''P0004'', ''n'', ''c'', ''v'', ''t'', ''g'', ''N/A'', ''r''],
      [''P0005'', ''n'', ''c'', ''v'', ''t'', ''g'', ''Maybe'', ''r'']]"

definition example_world :: world where
  "example_world =
     \<lparr>tree = [''s'' \<mapsto> [''qwen_video_image_raw'' \<mapsto>
        [''video_description.csv'' \<mapsto> example_video_description,
         ''product_info.csv'' \<mapsto> example_product_info,
         ''judgement.csv'' \<mapsto> example_judgement]]],
      trace = []\<rparr>"

definition example_duplicates :: csv_file where
  "example_duplicates =
     [[''product_id'', ''brand''], [''P0001'', ''x''], [''P0002'', ''y''], [''P0001'', ''z'']]"

definition example_overrides :: csv_file where
  "example_overrides =
     [[''product_id'', ''label'', ''reason''],
      [''P0001'', ''Yes'', ''a''], [''P0002'', ''Yes'', ''b''], [''P0001'', ''N/A'', ''c'']]"

definition judgement_only :: "csv_file \<Rightarrow> world" where
  "judgement_only f =
     \<lparr>tree = [''s'' \<mapsto> [''qwen_video_image_raw'' \<mapsto> [''judgement.csv'' \<mapsto> f]]], trace = []\<rparr>"

section \<open>Request validation\<close>

lemma model_name_nonempty: "m \<in> set MODEL_NAMES \<Longrightarrow> m \<noteq> []"
  by (auto simp add: MODEL_NAMES_def)

text \<open>
  Claim C9. On each of the six endpoints that take a model parameter, a model value that is
  not one of the twelve names of \<open>MODEL_NAMES\<close> gives status 400, whatever the other fields
  are, and the world is left as it was: the tree is unchanged and no file system call is made.
\<close>

theorem invalid_model_rejected:
  assumes "\<not> is_in model MODEL_NAMES" and "\<not> is_in_q model_q MODEL_NAMES"
  shows "status_code (fst (make_video_description rnd w uuid_str model)) = 400
       \<and> snd (make_video_description rnd w uuid_str model) = w
       \<and> status_code (fst (make_product_info rnd w uuid_str model)) = 400
       \<and> snd (make_product_info rnd w uuid_str model) = w
       \<and> status_code (fst (judge rnd w uuid_str model)) = 400
       \<and> snd (judge rnd w uuid_str model) = w
       \<and> status_code (fst (get_status w uuid_q model_q)) = 400
       \<and> snd (get_status w uuid_q model_q) = w
       \<and> status_code (fst (get_results w uuid_q model_q)) = 400
       \<and> snd (get_results w uuid_q model_q) = w
       \<and> status_code (fst (override_label py_str w uuid_str model product_id new_label)) = 400
       \<and> snd (override_label py_str w uuid_str model product_id new_label) = w"
  using assms
  by (simp add: make_video_description_def make_product_info_def judge_def generate_def
      get_status_def get_results_def override_label_def)

theorem invalid_model_rejected_witness:
  "\<not> is_in (JStr ''gpt4'') MODEL_NAMES \<and> \<not> is_in_q (Some ''gpt4'') MODEL_NAMES
   \<and> status_code (fst (judge (\<lambda>i. 0) \<lparr>tree = Map.empty, trace = []\<rparr> (JStr ''s'') (JStr ''gpt4''))) = 400
   \<and> snd (judge (\<lambda>i. 0) \<lparr>tree = Map.empty, trace = []\<rparr> (JStr ''s'') (JStr ''gpt4''))
       = \<lparr>tree = Map.empty, trace = []\<rparr>
   \<and> status_code (fst (get_results \<lparr>tree = Map.empty, trace = []\<rparr> (Some ''s'') (Some ''gpt4''))) = 400
   \<and> snd (override_label (\<lambda>l. []) \<lparr>tree = Map.empty, trace = []\<rparr> (JStr ''s'') (JStr ''gpt4'')
          (JStr ''P0001'') (JStr ''No''))
       = \<lparr>tree = Map.empty, trace = []\<rparr>"
proof -
  have h1: "\<not> is_in (JStr ''gpt4'') MODEL_NAMES"
    by (simp add: is_in_def MODEL_NAMES_def)
  have h2: "\<not> is_in_q (Some ''gpt4'') MODEL_NAMES"
    by (simp add: is_in_q_def MODEL_NAMES_def)
  show ?thesis
    using h1 h2 invalid_model_rejected [OF h1 h2, of "\<lambda>i. 0" "\<lparr>tree = Map.empty, trace = []\<rparr>"
      "JStr ''s''" "Some ''s''" "\<lambda>l. []" "JStr ''P0001''" "JStr ''No''"]
    by simp
qed

section \<open>Results before the tables exist\<close>

lemma results_reads_only_when_all_exist:
  "OpenRead p \<in> set (new_events w (snd (get_results w uq mq))) \<Longrightarrow>
     \<exists>u m. uq = Some u \<and> mq = Some m \<and> table_exists (tree w) u m ''video_description''
        \<and> table_exists (tree w) u m ''product_info'' \<and> table_exists (tree w) u m ''judgement''"
  by (auto simp add: get_results_def truthy_q_def is_in_q_def path_exists_def table_exists_def
      Let_def new_events_def read_table_def open_read_def
      split: option.splits if_splits sum.splits prod.splits)

text \<open>
  Claim C3. For a session and a valid model of which at least one of the three tables does not
  exist, the results operation answers 400 with the message that not all required CSV files
  exist, and nothing else: the world after it is the world before it with three existence probes
  added to the trace, so that no table was opened for reading and the tree is unchanged.
\<close>

theorem results_missing_prerequisite:
  assumes "u \<noteq> []" and "m \<in> set MODEL_NAMES"
    and "\<not> (table_exists (tree w) u m ''video_description''
           \<and> table_exists (tree w) u m ''product_info''
           \<and> table_exists (tree w) u m ''judgement'')"
  shows "get_results w (Some u) (Some m) =
       (Response (ErrorOnly (Text ''Not all required CSV files exist'')) 400,
        w\<lparr>trace := trace w @ [Probe (get_csv_path u m ''video_description''),
          Probe (get_csv_path u m ''product_info''), Probe (get_csv_path u m ''judgement'')]\<rparr>)
     \<and> (\<forall>p. OpenRead p \<notin> set (new_events w (snd (get_results w (Some u) (Some m)))))"
proof -
  have "get_results w (Some u) (Some m) =
       (Response (ErrorOnly (Text ''Not all required CSV files exist'')) 400,
        w\<lparr>trace := trace w @ [Probe (get_csv_path u m ''video_description''),
          Probe (get_csv_path u m ''product_info''), Probe (get_csv_path u m ''judgement'')]\<rparr>)"
    using assms model_name_nonempty [of m]
    by (auto simp add: get_results_def truthy_q_def is_in_q_def path_exists_def table_exists_def
        Let_def)
  then show ?thesis by (simp add: new_events_def)
qed

theorem results_missing_prerequisite_witness:
  "get_results
     \<lparr>tree = [''s'' \<mapsto> [''qwen_video_image_raw'' \<mapsto> [''video_description.csv'' \<mapsto> [[''product_id'']]]]],
      trace = []\<rparr> (Some ''s'') (Some ''qwen_video_image_raw'') =
   (Response (ErrorOnly (Text ''Not all required CSV files exist'')) 400,
    \<lparr>tree = [''s'' \<mapsto> [''qwen_video_image_raw'' \<mapsto> [''video_description.csv'' \<mapsto> [[''product_id'']]]]],
     trace = [Probe (''s'', ''qwen_video_image_raw'', ''video_description.csv''),
              Probe (''s'', ''qwen_video_image_raw'', ''product_info.csv''),
              Probe (''s'', ''qwen_video_image_raw'', ''judgement.csv'')]\<rparr>)"
proof -
  let ?w = "\<lparr>tree = [''s'' \<mapsto> [''qwen_video_image_raw'' \<mapsto> [''video_description.csv'' \<mapsto> [[''product_id'']]]]],
      trace = []\<rparr>"
  have h1: "''s'' \<noteq> []" by simp
  have h2: "''qwen_video_image_raw'' \<in> set MODEL_NAMES" by (simp add: MODEL_NAMES_def)
  have h3: "\<not> (table_exists (tree ?w) ''s'' ''qwen_video_image_raw'' ''video_description''
           \<and> table_exists (tree ?w) ''s'' ''qwen_video_image_raw'' ''product_info''
           \<and> table_exists (tree ?w) ''s'' ''qwen_video_image_raw'' ''judgement'')"
    by (simp add: table_exists_def lookup_file_def get_csv_path_def get_model_dir_def)
  show ?thesis
    using results_missing_prerequisite [OF h1 h2 h3]
    by (simp add: get_csv_path_def get_model_dir_def)
qed

section \<open>Status\<close>

lemma clear_removes:
  "u \<noteq> [] \<Longrightarrow> lookup_file (tree (snd (clear_all w (JStr u)))) (u, m, f) = None"
  by (auto simp add: clear_all_def truthy_def dir_exists_def rmtree_def lookup_file_def
      split: bool.splits option.splits)

text \<open>
  Claim C7, as the code has it. With a valid model the status operation answers with a mapping
  of exactly three keys, \<open>video_description_csv\<close>, \<open>product_info_csv\<close> and \<open>judgement_csv\<close>
  (the claim names them without the suffix), each \<open>complete\<close> if the file exists and \<open>pending\<close>
  otherwise; its only file system calls are three existence probes; after a clear of the session
  all three are \<open>pending\<close>.
\<close>

theorem status_existence_probe:
  assumes "u \<noteq> []" and "m \<in> set MODEL_NAMES"
  shows "get_status w (Some u) (Some m) =
       (Response (StatusMap
          [(''video_description_csv'', complete_or_pending (table_exists (tree w) u m ''video_description'')),
           (''product_info_csv'', complete_or_pending (table_exists (tree w) u m ''product_info'')),
           (''judgement_csv'', complete_or_pending (table_exists (tree w) u m ''judgement''))]) 200,
        w\<lparr>trace := trace w @ [Probe (get_csv_path u m ''video_description''),
          Probe (get_csv_path u m ''product_info''), Probe (get_csv_path u m ''judgement'')]\<rparr>)
     \<and> fst (get_status (snd (clear_all w (JStr u))) (Some u) (Some m)) =
       Response (StatusMap
          [(''video_description_csv'', ''pending''), (''product_info_csv'', ''pending''),
           (''judgement_csv'', ''pending'')]) 200"
proof -
  have m: "m \<noteq> []" using assms(2) by (rule model_name_nonempty)
  have a: "\<And>w. get_status w (Some u) (Some m) =
       (Response (StatusMap
          [(''video_description_csv'', complete_or_pending (table_exists (tree w) u m ''video_description'')),
           (''product_info_csv'', complete_or_pending (table_exists (tree w) u m ''product_info'')),
           (''judgement_csv'', complete_or_pending (table_exists (tree w) u m ''judgement''))]) 200,
        w\<lparr>trace := trace w @ [Probe (get_csv_path u m ''video_description''),
          Probe (get_csv_path u m ''product_info''), Probe (get_csv_path u m ''judgement'')]\<rparr>)"
    using assms m
    by (simp add: get_status_def truthy_q_def is_in_q_def path_exists_def table_exists_def Let_def)
  have b: "\<And>k. \<not> table_exists (tree (snd (clear_all w (JStr u)))) u m k"
    using clear_removes [OF assms(1)] by (simp add: table_exists_def get_csv_path_def get_model_dir_def)
  show ?thesis
    using a [of w] a [of "snd (clear_all w (JStr u))"] b by (simp add: complete_or_pending_def)
qed

theorem status_existence_probe_witness:
  "get_status
     \<lparr>tree = [''s'' \<mapsto> [''qwen_video_image_raw'' \<mapsto> [''judgement.csv'' \<mapsto> []]]], trace = []\<rparr>
     (Some ''s'') (Some ''qwen_video_image_raw'') =
   (Response (StatusMap
      [(''video_description_csv'', ''pending''), (''product_info_csv'', ''pending''),
       (''judgement_csv'', ''complete'')]) 200,
    \<lparr>tree = [''s'' \<mapsto> [''qwen_video_image_raw'' \<mapsto> [''judgement.csv'' \<mapsto> []]]],
     trace = [Probe (''s'', ''qwen_video_image_raw'', ''video_description.csv''),
              Probe (''s'', ''qwen_video_image_raw'', ''product_info.csv''),
              Probe (''s'', ''qwen_video_image_raw'', ''judgement.csv'')]\<rparr>)"
proof -
  have h1: "''s'' \<noteq> []" by simp
  have h2: "''qwen_video_image_raw'' \<in> set MODEL_NAMES" by (simp add: MODEL_NAMES_def)
  show ?thesis
    using status_existence_probe [OF h1 h2,
        of "\<lparr>tree = [''s'' \<mapsto> [''qwen_video_image_raw'' \<mapsto> [''judgement.csv'' \<mapsto> []]]], trace = []\<rparr>"]
    by (simp add: get_csv_path_def get_model_dir_def table_exists_def lookup_file_def
        complete_or_pending_def)
qed

text \<open>
  The keys of the status mapping are not \<open>video_description\<close>, \<open>product_info\<close> and
  \<open>judgement\<close>: each carries the suffix \<open>_csv\<close>.
\<close>

theorem status_keys_counterexample:
  "status_keys (fst (get_status \<lparr>tree = Map.empty, trace = []\<rparr> (Some ''s'') (Some ''qwen_video_image_raw'')))
     = [''video_description_csv'', ''product_info_csv'', ''judgement_csv'']
   \<and> ''video_description'' \<notin> set (status_keys
         (fst (get_status \<lparr>tree = Map.empty, trace = []\<rparr> (Some ''s'') (Some ''qwen_video_image_raw''))))"
  by (simp add: status_keys_def get_status_def truthy_q_def is_in_q_def MODEL_NAMES_def
      path_exists_def Let_def dict_keys_def)

section \<open>The generator overwrites\<close>

lemma write_after_mkdir:
  "open_write (mkdir_parents w (parent p)) p c =
     (None, \<lparr>tree = the (put_file (mkdir_tree (tree w) (parent p)) p c),
            trace = trace w @ [Mkdir (parent p), OpenWrite p]\<rparr>)
   \<and> lookup_file (the (put_file (mkdir_tree (tree w) (parent p)) p c)) p = Some c"
  by (cases p) (auto simp add: open_write_def mkdir_parents_def parent_def put_file_def mkdir_tree_def
      lookup_file_def Let_def split: option.splits)

lemma length_range1: "length (range1 n) = nat n"
  by (simp add: range1_def)

lemma distinct_range1: "distinct (range1 n)"
  by (simp add: range1_def)

lemma create_sample_csv_content:
  assumes "kind \<in> set kinds"
  shows "fst (create_sample_csv rnd w p kind n) = None
       \<and> lookup_file (tree (snd (create_sample_csv rnd w p kind n))) p
           = Some (fixed_header kind # sample_rows rnd kind n)
       \<and> trace (snd (create_sample_csv rnd w p kind n)) = trace w @ [Mkdir (parent p), OpenWrite p]"
  using assms
  by (auto simp add: kinds_def create_sample_csv_def Let_def write_after_mkdir fixed_header_def
      sample_rows_def)

lemma length_sample_rows: "length (sample_rows rnd kind n) = nat n"
  by (simp add: sample_rows_def length_range1)

lemma generate_content:
  assumes "kind \<in> set kinds" and "u \<noteq> []" and "m \<in> set MODEL_NAMES"
  shows "fst (generate kind rnd w (JStr u) (JStr m)) = Response OkTrue 200
       \<and> lookup_file (tree (snd (generate kind rnd w (JStr u) (JStr m)))) (get_csv_path u m kind)
           = Some (fixed_header kind # sample_rows rnd kind 50)"
proof -
  let ?c = "create_sample_csv rnd w (get_csv_path u m kind) kind 50"
  have m: "m \<noteq> []" using assms(3) by (rule model_name_nonempty)
  have g: "generate kind rnd w (JStr u) (JStr m) =
      (case ?c of (None, w') \<Rightarrow> (Response OkTrue 200, w')
                | (Some e, w') \<Rightarrow> (Response (OkFalse (StrOf e)) 500, w'))"
    using assms(2,3) m by (simp add: generate_def truthy_def is_in_def)
  have c: "?c = (None, snd ?c)"
    using create_sample_csv_content [OF assms(1), of rnd w "get_csv_path u m kind" 50]
    by (metis prod.collapse)
  have "generate kind rnd w (JStr u) (JStr m) = (Response OkTrue 200, snd ?c)"
    by (subst g, subst c) simp
  then show ?thesis
    using create_sample_csv_content [OF assms(1), of rnd w "get_csv_path u m kind" 50] by simp
qed

lemma sample_rows_nonempty: "filter (\<lambda>r. r \<noteq> []) (sample_rows rnd kind n) = sample_rows rnd kind n"
  by (simp add: sample_rows_def video_description_row_def product_info_row_def judgement_row_def Let_def)

lemma sample_rows_widths:
  "map length (sample_rows rnd ''video_description'' n) = replicate (nat n) 4"
  "map length (sample_rows rnd ''product_info'' n) = replicate (nat n) 5"
  "map length (sample_rows rnd ''judgement'' n) = replicate (nat n) 8"
  by (simp_all add: sample_rows_def video_description_row_def product_info_row_def
      judgement_row_def Let_def comp_def map_replicate_const length_range1)

lemma DictReader_sample_length:
  "int (length (DictReader (h # sample_rows rnd kind n))) = max 0 n"
  by (simp add: DictReader_def sample_rows_nonempty length_sample_rows)

lemma fixed_header_literal:
  "fixed_header ''video_description''
     = [''product_id'', ''description_key1'', ''description_key2'', ''description_key3'']"
  "fixed_header ''product_info'' = [''product_id'', ''brand'', ''price'', ''spec'', ''category'']"
  "fixed_header ''judgement''
     = [''product_id'', ''product_name'', ''category'', ''video_url'', ''thumbnail_url'',
        ''ground_truth_image_url'', ''label'', ''reason'']"
  by (simp_all add: fixed_header_def video_description_header_def product_info_header_def
      judgement_header_def)

lemma kinds_mem:
  "''video_description'' \<in> set kinds" "''product_info'' \<in> set kinds" "''judgement'' \<in> set kinds"
  by (simp_all add: kinds_def)

text \<open>
  Claim C8. For each of the three table kinds and every count \<open>n\<close>, the generator succeeds and
  leaves at the target path the header of the kind, \<open>product_id\<close> first, followed by rows that
  depend on the count and the random draws only, not on what the world held before: an existing
  file is replaced. There are exactly \<open>n\<close> rows (none for a negative \<open>n\<close>), each with as many
  fields as the header, and the file reads back as \<open>n\<close> data rows. The three generation
  endpoints answer 200 and write 50 such rows; a judgement table generated after a label
  override holds the freshly generated rows, whatever the override did.
\<close>

theorem generation_overwrites:
  assumes "u \<noteq> []" and "m \<in> set MODEL_NAMES"
  shows "(\<exists>vrows prows jrows.
          map length vrows = replicate (nat n) 4
        \<and> int (length (DictReader
             ([''product_id'', ''description_key1'', ''description_key2'', ''description_key3'']
              # vrows))) = max 0 n
        \<and> (\<forall>w. fst (create_sample_csv rnd w p ''video_description'' n) = None
             \<and> lookup_file (tree (snd (create_sample_csv rnd w p ''video_description'' n))) p
                 = Some ([''product_id'', ''description_key1'', ''description_key2'',
                          ''description_key3''] # vrows))
        \<and> map length prows = replicate (nat n) 5
        \<and> int (length (DictReader
             ([''product_id'', ''brand'', ''price'', ''spec'', ''category''] # prows))) = max 0 n
        \<and> (\<forall>w. fst (create_sample_csv rnd w p ''product_info'' n) = None
             \<and> lookup_file (tree (snd (create_sample_csv rnd w p ''product_info'' n))) p
                 = Some ([''product_id'', ''brand'', ''price'', ''spec'', ''category''] # prows))
        \<and> map length jrows = replicate (nat n) 8
        \<and> int (length (DictReader
             ([''product_id'', ''product_name'', ''category'', ''video_url'', ''thumbnail_url'',
               ''ground_truth_image_url'', ''label'', ''reason''] # jrows))) = max 0 n
        \<and> (\<forall>w. fst (create_sample_csv rnd w p ''judgement'' n) = None
             \<and> lookup_file (tree (snd (create_sample_csv rnd w p ''judgement'' n))) p
                 = Some ([''product_id'', ''product_name'', ''category'', ''video_url'',
                          ''thumbnail_url'', ''ground_truth_image_url'', ''label'', ''reason'']
                         # jrows)))
       \<and> (\<exists>vrows prows jrows.
          map length vrows = replicate 50 4 \<and> map length prows = replicate 50 5
        \<and> map length jrows = replicate 50 8
        \<and> (\<forall>w. fst (make_video_description rnd w (JStr u) (JStr m)) = Response OkTrue 200
             \<and> lookup_file (tree (snd (make_video_description rnd w (JStr u) (JStr m))))
                   (get_csv_path u m ''video_description'')
                 = Some ([''product_id'', ''description_key1'', ''description_key2'',
                          ''description_key3''] # vrows))
        \<and> (\<forall>w. fst (make_product_info rnd w (JStr u) (JStr m)) = Response OkTrue 200
             \<and> lookup_file (tree (snd (make_product_info rnd w (JStr u) (JStr m))))
                   (get_csv_path u m ''product_info'')
                 = Some ([''product_id'', ''brand'', ''price'', ''spec'', ''category''] # prows))
        \<and> (\<forall>w. fst (judge rnd w (JStr u) (JStr m)) = Response OkTrue 200
             \<and> lookup_file (tree (snd (judge rnd w (JStr u) (JStr m)))) (get_csv_path u m ''judgement'')
                 = Some ([''product_id'', ''product_name'', ''category'', ''video_url'',
                          ''thumbnail_url'', ''ground_truth_image_url'', ''label'', ''reason'']
                         # jrows))
        \<and> (\<forall>w py_str product_id new_label.
             lookup_file
               (tree (snd (judge rnd
                  (snd (override_label py_str w (JStr u) (JStr m) product_id new_label))
                  (JStr u) (JStr m))))
               (get_csv_path u m ''judgement'')
             = Some ([''product_id'', ''product_name'', ''category'', ''video_url'',
                      ''thumbnail_url'', ''ground_truth_image_url'', ''label'', ''reason'']
                     # jrows)))"
proof (intro conjI)
  let ?v = "sample_rows rnd ''video_description''"
  let ?p = "sample_rows rnd ''product_info''"
  let ?j = "sample_rows rnd ''judgement''"
  note c = create_sample_csv_content [OF kinds_mem(1), unfolded fixed_header_literal]
    create_sample_csv_content [OF kinds_mem(2), unfolded fixed_header_literal]
    create_sample_csv_content [OF kinds_mem(3), unfolded fixed_header_literal]
  note l = DictReader_sample_length [of _ rnd "''video_description''" n]
    DictReader_sample_length [of _ rnd "''product_info''" n]
    DictReader_sample_length [of _ rnd "''judgement''" n]
  show "\<exists>vrows prows jrows.
          map length vrows = replicate (nat n) 4
        \<and> int (length (DictReader
             ([''product_id'', ''description_key1'', ''description_key2'', ''description_key3'']
              # vrows))) = max 0 n
        \<and> (\<forall>w. fst (create_sample_csv rnd w p ''video_description'' n) = None
             \<and> lookup_file (tree (snd (create_sample_csv rnd w p ''video_description'' n))) p
                 = Some ([''product_id'', ''description_key1'', ''description_key2'',
                          ''description_key3''] # vrows))
        \<and> map length prows = replicate (nat n) 5
        \<and> int (length (DictReader
             ([''product_id'', ''brand'', ''price'', ''spec'', ''category''] # prows))) = max 0 n
        \<and> (\<forall>w. fst (create_sample_csv rnd w p ''product_info'' n) = None
             \<and> lookup_file (tree (snd (create_sample_csv rnd w p ''product_info'' n))) p
                 = Some ([''product_id'', ''brand'', ''price'', ''spec'', ''category''] # prows))
        \<and> map length jrows = replicate (nat n) 8
        \<and> int (length (DictReader
             ([''product_id'', ''product_name'', ''category'', ''video_url'', ''thumbnail_url'',
               ''ground_truth_image_url'', ''label'', ''reason''] # jrows))) = max 0 n
        \<and> (\<forall>w. fst (create_sample_csv rnd w p ''judgement'' n) = None
             \<and> lookup_file (tree (snd (create_sample_csv rnd w p ''judgement'' n))) p
                 = Some ([''product_id'', ''product_name'', ''category'', ''video_url'',
                          ''thumbnail_url'', ''ground_truth_image_url'', ''label'', ''reason'']
                         # jrows))"
    by (intro exI [of _ "?v n"] exI [of _ "?p n"] exI [of _ "?j n"] conjI allI
        sample_rows_widths l) (simp_all only: c)
next
  let ?v = "sample_rows rnd ''video_description'' 50"
  let ?p = "sample_rows rnd ''product_info'' 50"
  let ?j = "sample_rows rnd ''judgement'' 50"
  note g = generate_content [OF kinds_mem(1) assms, unfolded fixed_header_literal,
      folded make_video_description_def]
    generate_content [OF kinds_mem(2) assms, unfolded fixed_header_literal,
      folded make_product_info_def]
    generate_content [OF kinds_mem(3) assms, unfolded fixed_header_literal, folded judge_def]
  have w: "map length ?v = replicate 50 4" "map length ?p = replicate 50 5"
    "map length ?j = replicate 50 8"
    using sample_rows_widths [of rnd 50] by simp_all
  show "\<exists>vrows prows jrows.
          map length vrows = replicate 50 4 \<and> map length prows = replicate 50 5
        \<and> map length jrows = replicate 50 8
        \<and> (\<forall>w. fst (make_video_description rnd w (JStr u) (JStr m)) = Response OkTrue 200
             \<and> lookup_file (tree (snd (make_video_description rnd w (JStr u) (JStr m))))
                   (get_csv_path u m ''video_description'')
                 = Some ([''product_id'', ''description_key1'', ''description_key2'',
                          ''description_key3''] # vrows))
        \<and> (\<forall>w. fst (make_product_info rnd w (JStr u) (JStr m)) = Response OkTrue 200
             \<and> lookup_file (tree (snd (make_product_info rnd w (JStr u) (JStr m))))
                   (get_csv_path u m ''product_info'')
                 = Some ([''product_id'', ''brand'', ''price'', ''spec'', ''category''] # prows))
        \<and> (\<forall>w. fst (judge rnd w (JStr u) (JStr m)) = Response OkTrue 200
             \<and> lookup_file (tree (snd (judge rnd w (JStr u) (JStr m)))) (get_csv_path u m ''judgement'')
                 = Some ([''product_id'', ''product_name'', ''category'', ''video_url'',
                          ''thumbnail_url'', ''ground_truth_image_url'', ''label'', ''reason'']
                         # jrows))
        \<and> (\<forall>w py_str product_id new_label.
             lookup_file
               (tree (snd (judge rnd
                  (snd (override_label py_str w (JStr u) (JStr m) product_id new_label))
                  (JStr u) (JStr m))))
               (get_csv_path u m ''judgement'')
             = Some ([''product_id'', ''product_name'', ''category'', ''video_url'',
                      ''thumbnail_url'', ''ground_truth_image_url'', ''label'', ''reason'']
                     # jrows))"
    by (intro exI [of _ ?v] exI [of _ ?p] exI [of _ ?j] conjI allI w) (simp_all only: g)
qed


theorem generation_overwrites_witness:
  "lookup_file
     (tree (snd (create_sample_csv (\<lambda>i. i) (judgement_only example_overrides)
        (''s'', ''qwen_video_image_raw'', ''judgement.csv'') ''judgement'' 2)))
     (''s'', ''qwen_video_image_raw'', ''judgement.csv'')
   = Some
      [[''product_id'', ''product_name'', ''category'', ''video_url'', ''thumbnail_url'',
        ''ground_truth_image_url'', ''label'', ''reason''],
       [''P0001'', ''Sample Product 1'', ''Clothing'', ''http://example.com/video1.mp4'',
        ''http://example.com/thumb1.jpg'', ''http://example.com/gt1.jpg'', ''N/A'',
        ''Product information insufficient for determination 1''],
       [''P0002'', ''Sample Product 2'', ''Home & Garden'', ''http://example.com/video2.mp4'',
        ''http://example.com/thumb2.jpg'', ''http://example.com/gt2.jpg'', ''No'',
        ''Product does not meet the required standards 2'']]
   \<and> lookup_file
     (tree (snd (create_sample_csv (\<lambda>i. i) (judgement_only example_overrides)
        (''s'', ''qwen_video_image_raw'', ''video_description.csv'') ''video_description'' 2)))
     (''s'', ''qwen_video_image_raw'', ''video_description.csv'')
   = Some
      [[''product_id'', ''description_key1'', ''description_key2'', ''description_key3''],
       [''P0001'', ''Video shows product features 1'', ''Duration: 31 seconds'',
        ''Quality: Standard''],
       [''P0002'', ''Video shows product features 2'', ''Duration: 32 seconds'',
        ''Quality: Standard'']]
   \<and> lookup_file
     (tree (snd (create_sample_csv (\<lambda>i. i) (judgement_only example_overrides)
        (''s'', ''qwen_video_image_raw'', ''product_info.csv'') ''product_info'' 2)))
     (''s'', ''qwen_video_image_raw'', ''product_info.csv'')
   = Some
      [[''product_id'', ''brand'', ''price'', ''spec'', ''category''],
       [''P0001'', ''BrandB'', ''$30'', ''Model-1-XL'', ''Clothing''],
       [''P0002'', ''BrandC'', ''$40'', ''Model-2-XL'', ''Home & Garden'']]"
proof -
  let ?pj = "(''s'', ''qwen_video_image_raw'', ''judgement.csv'')"
  let ?pv = "(''s'', ''qwen_video_image_raw'', ''video_description.csv'')"
  let ?pp = "(''s'', ''qwen_video_image_raw'', ''product_info.csv'')"
  let ?e = "\<lparr>tree = Map.empty, trace = []\<rparr>"
  let ?w = "judgement_only example_overrides"
  let ?vh = "[''product_id'', ''description_key1'', ''description_key2'', ''description_key3'']"
  let ?ph = "[''product_id'', ''brand'', ''price'', ''spec'', ''category'']"
  let ?jh = "[''product_id'', ''product_name'', ''category'', ''video_url'', ''thumbnail_url'',
        ''ground_truth_image_url'', ''label'', ''reason'']"
  have h1: "''s'' \<noteq> []" by simp
  have h2: "''qwen_video_image_raw'' \<in> set MODEL_NAMES" by (simp add: MODEL_NAMES_def)
  from generation_overwrites [OF h1 h2, of 2 "\<lambda>i. i" ?pv] obtain vrows where
    v: "\<forall>w. fst (create_sample_csv (\<lambda>i. i) w ?pv ''video_description'' 2) = None
          \<and> lookup_file (tree (snd (create_sample_csv (\<lambda>i. i) w ?pv ''video_description'' 2))) ?pv
              = Some (?vh # vrows)"
    by (elim exE conjE)
  from generation_overwrites [OF h1 h2, of 2 "\<lambda>i. i" ?pp] obtain prows where
    p: "\<forall>w. fst (create_sample_csv (\<lambda>i. i) w ?pp ''product_info'' 2) = None
          \<and> lookup_file (tree (snd (create_sample_csv (\<lambda>i. i) w ?pp ''product_info'' 2))) ?pp
              = Some (?ph # prows)"
    by (elim exE conjE)
  from generation_overwrites [OF h1 h2, of 2 "\<lambda>i. i" ?pj] obtain jrows where
    j: "\<forall>w. fst (create_sample_csv (\<lambda>i. i) w ?pj ''judgement'' 2) = None
          \<and> lookup_file (tree (snd (create_sample_csv (\<lambda>i. i) w ?pj ''judgement'' 2))) ?pj
              = Some (?jh # jrows)"
    by (elim exE conjE)
  have ej: "lookup_file (tree (snd (create_sample_csv (\<lambda>i. i) ?e ?pj ''judgement'' 2))) ?pj
    = Some
      [?jh,
       [''P0001'', ''Sample Product 1'', ''Clothing'', ''http://example.com/video1.mp4'',
        ''http://example.com/thumb1.jpg'', ''http://example.com/gt1.jpg'', ''N/A'',
        ''Product information insufficient for determination 1''],
       [''P0002'', ''Sample Product 2'', ''Home & Garden'', ''http://example.com/video2.mp4'',
        ''http://example.com/thumb2.jpg'', ''http://example.com/gt2.jpg'', ''No'',
        ''Product does not meet the required standards 2'']]"
    by code_simp
  have ev: "lookup_file (tree (snd (create_sample_csv (\<lambda>i. i) ?e ?pv ''video_description'' 2))) ?pv
    = Some
      [?vh,
       [''P0001'', ''Video shows product features 1'', ''Duration: 31 seconds'',
        ''Quality: Standard''],
       [''P0002'', ''Video shows product features 2'', ''Duration: 32 seconds'',
        ''Quality: Standard'']]"
    by code_simp
  have ep: "lookup_file (tree (snd (create_sample_csv (\<lambda>i. i) ?e ?pp ''product_info'' 2))) ?pp
    = Some
      [?ph,
       [''P0001'', ''BrandB'', ''$30'', ''Model-1-XL'', ''Clothing''],
       [''P0002'', ''BrandC'', ''$40'', ''Model-2-XL'', ''Home & Garden'']]"
    by code_simp
  have tj: "lookup_file (tree (snd (create_sample_csv (\<lambda>i. i) ?w ?pj ''judgement'' 2))) ?pj
      = lookup_file (tree (snd (create_sample_csv (\<lambda>i. i) ?e ?pj ''judgement'' 2))) ?pj"
    using j by simp
  have tv: "lookup_file (tree (snd (create_sample_csv (\<lambda>i. i) ?w ?pv ''video_description'' 2))) ?pv
      = lookup_file (tree (snd (create_sample_csv (\<lambda>i. i) ?e ?pv ''video_description'' 2))) ?pv"
    using v by simp
  have tp: "lookup_file (tree (snd (create_sample_csv (\<lambda>i. i) ?w ?pp ''product_info'' 2))) ?pp
      = lookup_file (tree (snd (create_sample_csv (\<lambda>i. i) ?e ?pp ''product_info'' 2))) ?pp"
    using p by simp
  show ?thesis
    by (intro conjI) (simp_all only: tj tv tp ej ev ep)
qed

section \<open>Generated product identifiers\<close>

lemma digit_val_digit: "d < 10 \<Longrightarrow> digit_val (digit d) = d"
proof -
  assume "d < 10"
  then have "d \<in> {0, 1, 2, 3, 4, 5, 6, 7, 8, 9}" by auto
  then show ?thesis by (auto simp add: digit_def digit_val_def)
qed

lemma undec_snoc: "undec (s @ [c]) = 10 * undec s + digit_val c"
  by (simp add: undec_def)

lemma undec_dec: "undec (dec n) = n"
proof (induction n rule: dec.induct)
  case (1 n)
  show ?case
  proof (cases "n < 10")
    case True
    then show ?thesis by (simp add: dec.simps [of n] undec_def digit_val_digit)
  next
    case False
    then have "undec (dec n) = 10 * undec (dec (n div 10)) + digit_val (digit (n mod 10))"
      by (simp add: dec.simps [of n] undec_snoc)
    also have "\<dots> = 10 * (n div 10) + n mod 10"
      using 1 False by (simp add: digit_val_digit)
    finally show ?thesis by simp
  qed
qed

lemma foldl_zeros: "foldl (\<lambda>a c. 10 * a + digit_val c) 0 (replicate k (CHR ''0'')) = 0"
  by (induction k) (simp_all add: digit_val_def)

lemma undec_dec04: "undec (dec04 n) = n"
proof -
  have "undec (dec04 n) = undec (dec n)"
    by (simp add: dec04_def undec_def foldl_zeros)
  then show ?thesis by (simp add: undec_dec)
qed

lemma product_id_inj: "inj (\<lambda>i. ''P'' @ dec04 i)"
proof (rule injI)
  fix x y assume "''P'' @ dec04 x = ''P'' @ dec04 y"
  then have "undec (dec04 x) = undec (dec04 y)" by simp
  then show "x = y" by (simp add: undec_dec04)
qed

lemma reader_video_description_row:
  "row_product_id (reader_row video_description_header (video_description_row i)) = Some (Str (''P'' @ dec04 i))"
  by (simp add: row_product_id_def reader_row_def video_description_header_def video_description_row_def
      dict_of_pairs_def dict_get_def)

lemma reader_product_info_row:
  "row_product_id (reader_row product_info_header (product_info_row i)) = Some (Str (''P'' @ dec04 i))"
  by (simp add: row_product_id_def reader_row_def product_info_header_def product_info_row_def
      dict_of_pairs_def dict_get_def)

lemma reader_judgement_row:
  "row_product_id (reader_row judgement_header (judgement_row rnd i)) = Some (Str (''P'' @ dec04 i))"
  by (simp add: row_product_id_def reader_row_def judgement_header_def judgement_row_def
      dict_of_pairs_def dict_get_def Let_def)

lemma sample_product_ids:
  "map row_product_id (DictReader (fixed_header kind # sample_rows rnd kind n))
     = map (\<lambda>i. Some (Str (''P'' @ dec04 i))) (range1 n)"
  by (simp add: DictReader_def sample_rows_nonempty)
     (simp add: sample_rows_def fixed_header_def reader_video_description_row reader_product_info_row
       reader_judgement_row)

lemma sample_product_ids_distinct:
  "distinct (map row_product_id (DictReader (fixed_header kind # sample_rows rnd kind n)))"
proof -
  have "inj (\<lambda>i. Some (Str (''P'' @ dec04 i)))"
    using product_id_inj by (auto simp add: inj_def)
  then have "inj_on (\<lambda>i. Some (Str (''P'' @ dec04 i))) (set (range1 n))"
    by (rule inj_on_subset) simp
  then have "distinct (map (\<lambda>i. Some (Str (''P'' @ dec04 i))) (range1 n))"
    using distinct_range1 [of n] by (simp add: distinct_map)
  then show ?thesis by (simp only: sample_product_ids)
qed

text \<open>
  Claim C10. For each of the three table kinds and every count, the product identifiers of the
  rows the generator has written, read back in file order, are \<open>P\<close> followed by the zero-padded
  decimal numeral of the row index, for the indices from 1 to the count; the rendering is
  injective, so the identifiers are pairwise distinct.
\<close>

theorem generated_product_ids_distinct:
  assumes "kind \<in> set kinds"
  shows "\<exists>f. lookup_file (tree (snd (create_sample_csv rnd w p kind n))) p = Some f
       \<and> map row_product_id (DictReader f) = map (\<lambda>i. Some (Str (''P'' @ dec04 i))) (range1 n)
       \<and> distinct (map row_product_id (DictReader f))
       \<and> inj (\<lambda>i. ''P'' @ dec04 i)"
  using create_sample_csv_content [OF assms, of rnd w p n] sample_product_ids [of kind rnd n]
    sample_product_ids_distinct [of kind rnd n] product_id_inj
  by simp

theorem generated_product_ids_distinct_witness:
  "\<exists>f. lookup_file
          (tree (snd (create_sample_csv (\<lambda>i. 0) \<lparr>tree = Map.empty, trace = []\<rparr>
             (''s'', ''qwen_video_image_raw'', ''product_info.csv'') ''product_info'' 3)))
          (''s'', ''qwen_video_image_raw'', ''product_info.csv'') = Some f
       \<and> map row_product_id (DictReader f)
           = [Some (Str ''P0001''), Some (Str ''P0002''), Some (Str ''P0003'')]"
proof -
  have h: "''product_info'' \<in> set kinds" by (simp add: kinds_def)
  have r: "map (\<lambda>i. Some (Str (''P'' @ dec04 i))) (range1 3)
      = [Some (Str ''P0001''), Some (Str ''P0002''), Some (Str ''P0003'')]"
    by code_simp
  from generated_product_ids_distinct [OF h, of "\<lambda>i. 0" "\<lparr>tree = Map.empty, trace = []\<rparr>"
        "(''s'', ''qwen_video_image_raw'', ''product_info.csv'')" 3]
  obtain f where
    "lookup_file
          (tree (snd (create_sample_csv (\<lambda>i. 0) \<lparr>tree = Map.empty, trace = []\<rparr>
             (''s'', ''qwen_video_image_raw'', ''product_info.csv'') ''product_info'' 3)))
          (''s'', ''qwen_video_image_raw'', ''product_info.csv'') = Some f"
    and "map row_product_id (DictReader f) = map (\<lambda>i. Some (Str (''P'' @ dec04 i))) (range1 3)"
    by (elim exE conjE)
  then show ?thesis
    by (intro exI [of _ f] conjI) (simp_all only: r)
qed

section \<open>Dictionaries and rows\<close>

lemma dict_get_dict_set: "dict_get (dict_set d k v) k' = (if k' = k then Some v else dict_get d k')"
  by (induction d) (auto simp add: dict_get_def)

lemma set_dict_set: "set (dict_set d k v) \<subseteq> insert (k, v) (set d)"
  by (induction d) (auto split: if_splits)

lemma dict_keys_dict_set:
  "dict_keys (dict_set d k v) = (if k \<in> set (dict_keys d) then dict_keys d else dict_keys d @ [k])"
  by (induction d) (force simp add: dict_keys_def)+

lemma keys_dict_set: "set (dict_keys (dict_set d k v)) = insert k (set (dict_keys d))"
  by (auto simp add: dict_keys_dict_set)

lemma dict_get_None_iff: "dict_get d k = None \<longleftrightarrow> k \<notin> set (dict_keys d)"
  by (simp add: dict_get_def dict_keys_def map_of_eq_None_iff)

lemma dict_get_in_set: "dict_get d k = Some v \<Longrightarrow> (k, v) \<in> set d"
  by (simp add: dict_get_def map_of_SomeD)

lemma keys_fold_pairs:
  "set (dict_keys (fold (\<lambda>(k, v) d. dict_set d k v) ps acc)) = set (dict_keys acc) \<union> fst ` set ps"
  by (induction ps arbitrary: acc) (auto simp add: keys_dict_set)

lemma set_fold_pairs:
  "set (fold (\<lambda>(k, v) d. dict_set d k v) ps acc) \<subseteq> set acc \<union> set ps"
proof (induction ps arbitrary: acc)
  case Nil
  then show ?case by simp
next
  case (Cons p ps)
  obtain k v where p: "p = (k, v)" by (cases p)
  have "set (fold (\<lambda>(k, v) d. dict_set d k v) ps (dict_set acc k v)) \<subseteq> set (dict_set acc k v) \<union> set ps"
    by (rule Cons.IH)
  also have "\<dots> \<subseteq> set acc \<union> set (p # ps)"
    using set_dict_set [of acc k v] p by auto
  finally show ?case by (simp add: p)
qed

lemma keys_fold_none:
  "set (dict_keys (fold (\<lambda>key d'. dict_set d' (Some key) PyNone) ks d)) = set (dict_keys d) \<union> Some ` set ks"
  by (induction ks arbitrary: d) (auto simp add: keys_dict_set)

lemma set_fold_none:
  "set (fold (\<lambda>key d'. dict_set d' (Some key) PyNone) ks d) \<subseteq> set d \<union> (\<lambda>k. (Some k, PyNone)) ` set ks"
proof (induction ks arbitrary: d)
  case Nil
  then show ?case by simp
next
  case (Cons k ks)
  have "set (fold (\<lambda>key d'. dict_set d' (Some key) PyNone) ks (dict_set d (Some k) PyNone))
      \<subseteq> set (dict_set d (Some k) PyNone) \<union> (\<lambda>k. (Some k, PyNone)) ` set ks"
    by (rule Cons.IH)
  also have "\<dots> \<subseteq> set d \<union> (\<lambda>k. (Some k, PyNone)) ` set (k # ks)"
    using set_dict_set [of d "Some k" PyNone] by auto
  finally show ?case by simp
qed

lemma fst_set_zip: "fst ` set (zip xs ys) = set (take (length ys) xs)"
proof (induction xs arbitrary: ys)
  case Nil
  then show ?case by simp
next
  case (Cons x xs)
  then show ?case by (cases ys) auto
qed

text \<open>The keys of a row that \<open>DictReader\<close> yields are the header's names, and \<open>None\<close> for a long record.\<close>

lemma keys_reader_row:
  "set (dict_keys (reader_row h r)) = Some ` set h \<union> (if length h < length r then {None} else {})"
proof -
  let ?d = "dict_of_pairs (zip (map Some h) (map Str r))"
  have "set (dict_keys ?d) = fst ` set (zip (map Some h) (map Str r))"
    by (simp add: dict_of_pairs_def keys_fold_pairs) (simp add: dict_keys_def)
  also have "\<dots> = set (take (length (map Str r)) (map Some h))"
    by (rule fst_set_zip)
  also have "\<dots> = Some ` set (take (length r) h)"
    by (simp add: take_map)
  finally have k: "set (dict_keys ?d) = Some ` set (take (length r) h)" .
  show ?thesis
  proof (cases "length h < length r")
    case True
    then show ?thesis by (simp add: reader_row_def Let_def keys_dict_set k)
  next
    case False
    note nl = this
    show ?thesis
    proof (cases "length r < length h")
      case True
      have "set h = set (take (length r) h) \<union> set (drop (length r) h)"
        by (metis append_take_drop_id set_append)
      then show ?thesis
        using True nl by (simp add: reader_row_def Let_def keys_fold_none k image_Un)
    next
      case False
      then show ?thesis using nl by (simp add: reader_row_def Let_def k)
    qed
  qed
qed

lemma values_reader_row:
  assumes "(Some k, v) \<in> set (reader_row h r)"
  shows "hashable v"
proof -
  let ?ps = "zip (map Some h) (map Str r)"
  let ?d = "dict_of_pairs ?ps"
  have d: "set ?d \<subseteq> set ?ps"
    using set_fold_pairs [of ?ps "[]"] by (simp add: dict_of_pairs_def)
  have ps: "\<And>k v. (k, v) \<in> set ?ps \<Longrightarrow> hashable v"
    by (auto simp add: hashable_def dest!: set_zip_rightD)
  have "set (reader_row h r) \<subseteq> set ?ps \<union> {(None, StrList (drop (length h) r))}
      \<union> (\<lambda>k. (Some k, PyNone)) ` set (drop (length r) h)"
    using d set_dict_set [of ?d None "StrList (drop (length h) r)"]
      set_fold_none [of "drop (length r) h" ?d]
    by (auto simp add: reader_row_def Let_def)
  then have "(Some k, v) \<in> set ?ps \<or> v = PyNone" using assms by auto
  then show ?thesis using ps by (auto simp add: hashable_def)
qed

lemma getitem_reader_row:
  assumes "k \<in> set h"
  shows "\<exists>v. getitem (reader_row h r) k = Inr v \<and> hashable v"
proof -
  have "Some k \<in> set (dict_keys (reader_row h r))"
    using assms by (simp add: keys_reader_row)
  then obtain v where v: "dict_get (reader_row h r) (Some k) = Some v"
    using dict_get_None_iff [of "reader_row h r" "Some k"] by auto
  then have "hashable v" using values_reader_row dict_get_in_set by fast
  then show ?thesis using v by (simp add: getitem_def)
qed

section \<open>The join\<close>

lemma find_snoc: "find P (xs @ [x]) = (case find P xs of Some y \<Rightarrow> Some y | None \<Rightarrow> if P x then Some x else None)"
  by (induction xs) auto

lemma lookup_last_Cons:
  "lookup_last (r # rs) k =
     (case lookup_last rs k of Some e \<Rightarrow> Some e
      | None \<Rightarrow> if row_product_id r = Some k then Some (without_product_id r) else None)"
  by (simp add: lookup_last_def find_snoc split: option.splits)

lemma load_keyed_lookup:
  assumes "\<forall>r\<in>set rows. \<exists>v. getitem r ''product_id'' = Inr v \<and> hashable v"
  shows "\<exists>d. load_keyed rows acc = Inr d
       \<and> (\<forall>k. dict_get d k = (case lookup_last rows k of Some e \<Rightarrow> Some e | None \<Rightarrow> dict_get acc k))"
  using assms
proof (induction rows arbitrary: acc)
  case Nil
  then show ?case by (simp add: lookup_last_def)
next
  case (Cons r rs)
  from Cons.prems obtain v where v: "getitem r ''product_id'' = Inr v" and h: "hashable v"
    by auto
  have pid: "row_product_id r = Some v"
    using v by (simp add: getitem_def row_product_id_def split: option.splits)
  let ?acc = "dict_set acc v (without_product_id r)"
  from Cons.IH [of ?acc] Cons.prems obtain d where d: "load_keyed rs ?acc = Inr d"
    and g: "\<forall>k. dict_get d k = (case lookup_last rs k of Some e \<Rightarrow> Some e | None \<Rightarrow> dict_get ?acc k)"
    by auto
  have "load_keyed (r # rs) acc = Inr d"
    using v h d by (simp add: bind_def)
  moreover have "\<forall>k. dict_get d k
      = (case lookup_last (r # rs) k of Some e \<Rightarrow> Some e | None \<Rightarrow> dict_get acc k)"
    using g pid by (auto simp add: lookup_last_Cons dict_get_dict_set split: option.splits)
  ultimately show ?case by blast
qed

lemma getitem_field: "getitem r k = Inr v \<Longrightarrow> field r k = v"
  by (simp add: getitem_def field_def split: option.splits)

lemma getitem_field_eq:
  "\<exists>v. getitem r k = Inr v \<and> hashable v \<Longrightarrow> getitem r k = Inr (field r k) \<and> hashable (field r k)"
  using getitem_field by fastforce

lemma make_item_complete:
  assumes "complete_row r"
    and "\<And>k. get_or_empty vds k = entry_or_empty vrows k"
    and "\<And>k. get_or_empty pis k = entry_or_empty prows k"
  shows "make_item vds pis r = Inr (field r ''label'', joined_item vrows prows r)"
proof -
  have g: "\<And>k. k \<in> set judgement_header \<Longrightarrow> getitem r k = Inr (field r k) \<and> hashable (field r k)"
    using assms(1) getitem_field_eq unfolding complete_row_def by blast
  have "getitem r ''product_id'' = Inr (field r ''product_id'')"
    "hashable (field r ''product_id'')"
    "getitem r ''label'' = Inr (field r ''label'')"
    "getitem r ''product_name'' = Inr (field r ''product_name'')"
    "getitem r ''category'' = Inr (field r ''category'')"
    "getitem r ''video_url'' = Inr (field r ''video_url'')"
    "getitem r ''thumbnail_url'' = Inr (field r ''thumbnail_url'')"
    "getitem r ''ground_truth_image_url'' = Inr (field r ''ground_truth_image_url'')"
    "getitem r ''reason'' = Inr (field r ''reason'')"
    using g by (simp_all add: judgement_header_def)
  then show ?thesis
    by (simp add: make_item_def bind_def joined_item_def assms(2,3))
qed

lemma count_label_known:
  assumes "hashable l"
  shows "count_label [(Str ''Yes'', a), (Str ''N/A'', b), (Str ''No'', c)] l =
     Inr [(Str ''Yes'', a + (if l = Str ''Yes'' then 1 else 0)),
          (Str ''N/A'', b + (if l = Str ''N/A'' then 1 else 0)),
          (Str ''No'', c + (if l = Str ''No'' then 1 else 0))]"
  using assms by (simp add: count_label_def dict_get_def)

lemma label_count_Cons:
  "label_count (r # rs) l = (if field r ''label'' = Str l then 1 else 0) + label_count rs l"
  by (auto simp add: label_count_def field_def split: option.splits)

lemma judgement_loop_complete:
  assumes "\<forall>r\<in>set rows. complete_row r"
    and "\<And>k. get_or_empty vds k = entry_or_empty vrows k"
    and "\<And>k. get_or_empty pis k = entry_or_empty prows k"
  shows "judgement_loop vds pis rows its [(Str ''Yes'', a), (Str ''N/A'', b), (Str ''No'', c)] =
     Inr \<lparr>counts = [(Str ''Yes'', a + label_count rows ''Yes''),
                    (Str ''N/A'', b + label_count rows ''N/A''),
                    (Str ''No'', c + label_count rows ''No'')],
          items = its @ map (joined_item vrows prows) rows\<rparr>"
  using assms(1)
proof (induction rows arbitrary: its a b c)
  case Nil
  then show ?case by (simp add: label_count_def)
next
  case (Cons r rs)
  have cr: "complete_row r" using Cons.prems by simp
  have mi: "make_item vds pis r = Inr (field r ''label'', joined_item vrows prows r)"
    using make_item_complete [OF cr assms(2,3)] .
  have hl: "hashable (field r ''label'')"
    using cr getitem_field_eq unfolding complete_row_def by (simp add: judgement_header_def)
  have ih: "\<And>its a b c. judgement_loop vds pis rs its [(Str ''Yes'', a), (Str ''N/A'', b), (Str ''No'', c)] =
     Inr \<lparr>counts = [(Str ''Yes'', a + label_count rs ''Yes''),
                    (Str ''N/A'', b + label_count rs ''N/A''),
                    (Str ''No'', c + label_count rs ''No'')],
          items = its @ map (joined_item vrows prows) rs\<rparr>"
    using Cons.IH Cons.prems by simp
  show ?case
    by (simp add: mi bind_def count_label_known [OF hl] ih label_count_Cons)
qed

lemma DictReader_columns:
  assumes "has_columns f cols" and "r \<in> set (DictReader f)" and "k \<in> set cols"
  shows "\<exists>v. getitem r k = Inr v \<and> hashable v"
proof -
  from assms(1) obtain h rs where f: "f = h # rs" and c: "set cols \<subseteq> set h"
    by (auto simp add: has_columns_def split: list.splits)
  from assms(2) f obtain x where "r = reader_row h x"
    by (auto simp add: DictReader_def)
  then show ?thesis using getitem_reader_row [of k h x] c assms(3) by auto
qed

lemma load_keyed_table:
  assumes "has_columns f [''product_id'']"
  shows "\<exists>d. load_keyed (DictReader f) [] = Inr d \<and> (\<forall>k. get_or_empty d k = entry_or_empty (DictReader f) k)"
proof -
  have "\<forall>r\<in>set (DictReader f). \<exists>v. getitem r ''product_id'' = Inr v \<and> hashable v"
    using DictReader_columns [OF assms] by simp
  from load_keyed_lookup [OF this, of "[]"] obtain d where d: "load_keyed (DictReader f) [] = Inr d"
    and g: "\<forall>k. dict_get d k = (case lookup_last (DictReader f) k of Some e \<Rightarrow> Some e | None \<Rightarrow> dict_get [] k)"
    by blast
  have "\<forall>k. get_or_empty d k = entry_or_empty (DictReader f) k"
    using g by (simp add: get_or_empty_def entry_or_empty_def dict_get_def split: option.splits)
  then show ?thesis using d by blast
qed

lemma get_results_ok:
  assumes "u \<noteq> []" and "m \<in> set MODEL_NAMES"
    and fv: "lookup_file (tree w) (get_csv_path u m ''video_description'') = Some fv"
    and fp: "lookup_file (tree w) (get_csv_path u m ''product_info'') = Some fp"
    and fj: "lookup_file (tree w) (get_csv_path u m ''judgement'') = Some fj"
    and cv: "has_columns fv [''product_id'']"
    and cp: "has_columns fp [''product_id'']"
    and cj: "has_columns fj judgement_header"
  shows "get_results w (Some u) (Some m) =
     (Response (ResultMap
        \<lparr>counts = [(Str ''Yes'', label_count (DictReader fj) ''Yes''),
                  (Str ''N/A'', label_count (DictReader fj) ''N/A''),
                  (Str ''No'', label_count (DictReader fj) ''No'')],
         items = map (joined_item (DictReader fv) (DictReader fp)) (DictReader fj)\<rparr>) 200,
      w\<lparr>trace := trace w @ results_trace u m\<rparr>)"
proof -
  have m: "m \<noteq> []" using assms(2) by (rule model_name_nonempty)
  from load_keyed_table [OF cv] obtain vds where vds: "load_keyed (DictReader fv) [] = Inr vds"
    and gv: "\<And>k. get_or_empty vds k = entry_or_empty (DictReader fv) k" by blast
  from load_keyed_table [OF cp] obtain pis where pis: "load_keyed (DictReader fp) [] = Inr pis"
    and gp: "\<And>k. get_or_empty pis k = entry_or_empty (DictReader fp) k" by blast
  have cr: "\<forall>r\<in>set (DictReader fj). complete_row r"
    using DictReader_columns [OF cj] by (simp add: complete_row_def)
  have jl: "judgement_loop vds pis (DictReader fj) [] [(Str ''Yes'', 0), (Str ''N/A'', 0), (Str ''No'', 0)] =
     Inr \<lparr>counts = [(Str ''Yes'', label_count (DictReader fj) ''Yes''),
                    (Str ''N/A'', label_count (DictReader fj) ''N/A''),
                    (Str ''No'', label_count (DictReader fj) ''No'')],
          items = map (joined_item (DictReader fv) (DictReader fp)) (DictReader fj)\<rparr>"
    using judgement_loop_complete [OF cr gv gp, of "[]" 0 0 0] by simp
  show ?thesis
    using assms(1,2) m
    by (simp add: get_results_def truthy_q_def is_in_q_def path_exists_def read_table_def
        open_read_def Let_def fv fp fj vds pis jl results_trace_def)
qed

lemma find_append_none: "\<forall>x\<in>set xs. \<not> P x \<Longrightarrow> find P (xs @ ys) = find P ys"
  by (induction xs) auto

lemma lookup_last_split:
  assumes "row_product_id r = Some k" and "\<forall>r'\<in>set ys. row_product_id r' \<noteq> Some k"
  shows "lookup_last (xs @ r # ys) k = Some (without_product_id r)"
proof -
  have "find (\<lambda>r. row_product_id r = Some k) (rev ys @ r # rev xs) = Some r"
    using assms by (simp add: find_append_none)
  then show ?thesis by (simp add: lookup_last_def)
qed

lemma label_count_sum:
  "label_count rows ''Yes'' + label_count rows ''N/A'' + label_count rows ''No''
     = length (filter (\<lambda>r. field r ''label'' \<in> {Str ''Yes'', Str ''N/A'', Str ''No''}) rows)"
  by (induction rows) (auto simp add: label_count_Cons, simp_all add: label_count_def)

text \<open>
  Claim C1. When the three tables exist and are rectangular, the two keyed tables have a
  \<open>product_id\<close> column and the judgement table has its eight columns, the results operation
  answers 200 with one item per judgement row, in the order of the judgement file; each item
  carries the row's own eight fields, and under \<open>video_description\<close> and \<open>product_info\<close> the
  entry of that table for the row's product identifier, or an empty mapping when the table has
  no row with it. Every judgement row gives an item, matched or not.
\<close>

theorem results_join_left_driven:
  assumes "u \<noteq> []" and "m \<in> set MODEL_NAMES"
    and "lookup_file (tree w) (get_csv_path u m ''video_description'') = Some fv"
    and "lookup_file (tree w) (get_csv_path u m ''product_info'') = Some fp"
    and "lookup_file (tree w) (get_csv_path u m ''judgement'') = Some fj"
    and "has_columns fv [''product_id'']"
    and "has_columns fp [''product_id'']"
    and "has_columns fj judgement_header"
    and "rectangular fv" and "rectangular fp" and "rectangular fj"
  shows "\<exists>res. fst (get_results w (Some u) (Some m)) = Response (ResultMap res) 200
       \<and> items res = map (joined_item (DictReader fv) (DictReader fp)) (DictReader fj)
       \<and> length (items res) = length (DictReader fj)"
  using get_results_ok [OF assms(1-8)] by simp

theorem results_join_left_driven_witness:
  "\<exists>res. fst (get_results example_world (Some ''s'') (Some ''qwen_video_image_raw''))
            = Response (ResultMap res) 200
     \<and> map (\<lambda>it. (dict_get it ''product_id'', dict_get it ''video_description'',
                   dict_get it ''product_info'')) (items res) =
       [(Some (V (Str ''P0002'')), Some (D [(Some ''description_key1'', Str ''b'')]), Some (D [])),
        (Some (V (Str ''P0001'')), Some (D [(Some ''description_key1'', Str ''a'')]),
         Some (D [(Some ''brand'', Str ''x'')])),
        (Some (V (Str ''P0003'')), Some (D []), Some (D [(Some ''brand'', Str ''y'')])),
        (Some (V (Str ''P0004'')), Some (D []), Some (D [])),
        (Some (V (Str ''P0005'')), Some (D []), Some (D []))]"
proof -
  have h1: "''s'' \<noteq> []" by simp
  have h2: "''qwen_video_image_raw'' \<in> set MODEL_NAMES" by (simp add: MODEL_NAMES_def)
  have h3: "lookup_file (tree example_world) (get_csv_path ''s'' ''qwen_video_image_raw'' ''video_description'')
      = Some example_video_description"
    by (simp add: example_world_def lookup_file_def get_csv_path_def get_model_dir_def)
  have h4: "lookup_file (tree example_world) (get_csv_path ''s'' ''qwen_video_image_raw'' ''product_info'')
      = Some example_product_info"
    by (simp add: example_world_def lookup_file_def get_csv_path_def get_model_dir_def)
  have h5: "lookup_file (tree example_world) (get_csv_path ''s'' ''qwen_video_image_raw'' ''judgement'')
      = Some example_judgement"
    by (simp add: example_world_def lookup_file_def get_csv_path_def get_model_dir_def)
  have h6: "has_columns example_video_description [''product_id'']"
    by (simp add: has_columns_def example_video_description_def)
  have h7: "has_columns example_product_info [''product_id'']"
    by (simp add: has_columns_def example_product_info_def)
  have h8: "has_columns example_judgement judgement_header"
    by (simp add: has_columns_def example_judgement_def)
  have h9: "rectangular example_video_description"
    by (simp add: rectangular_def example_video_description_def)
  have h10: "rectangular example_product_info"
    by (simp add: rectangular_def example_product_info_def)
  have h11: "rectangular example_judgement"
    by (simp add: rectangular_def example_judgement_def judgement_header_def)
  have e: "map (\<lambda>it. (dict_get it ''product_id'', dict_get it ''video_description'',
                   dict_get it ''product_info''))
      (map (joined_item (DictReader example_video_description) (DictReader example_product_info))
         (DictReader example_judgement)) =
       [(Some (V (Str ''P0002'')), Some (D [(Some ''description_key1'', Str ''b'')]), Some (D [])),
        (Some (V (Str ''P0001'')), Some (D [(Some ''description_key1'', Str ''a'')]),
         Some (D [(Some ''brand'', Str ''x'')])),
        (Some (V (Str ''P0003'')), Some (D []), Some (D [(Some ''brand'', Str ''y'')])),
        (Some (V (Str ''P0004'')), Some (D []), Some (D [])),
        (Some (V (Str ''P0005'')), Some (D []), Some (D []))]"
    by code_simp
  from results_join_left_driven [OF h1 h2 h3 h4 h5 h6 h7 h8 h9 h10 h11] obtain res where
    "fst (get_results example_world (Some ''s'') (Some ''qwen_video_image_raw''))
       = Response (ResultMap res) 200"
    and "items res = map (joined_item (DictReader example_video_description)
           (DictReader example_product_info)) (DictReader example_judgement)"
    by (elim exE conjE)
  then show ?thesis
    by (intro exI [of _ res] conjI) (simp_all only: e)
qed

text \<open>
  Claim C2. Under the same conditions the counts mapping of the results has exactly the keys
  \<open>Yes\<close>, \<open>N/A\<close> and \<open>No\<close>, in this order, each valued with the number of judgement rows whose
  label is that key; their sum is the number of rows with one of the three labels, while the
  number of items is the number of all rows.
\<close>

theorem results_counts:
  assumes "u \<noteq> []" and "m \<in> set MODEL_NAMES"
    and "lookup_file (tree w) (get_csv_path u m ''video_description'') = Some fv"
    and "lookup_file (tree w) (get_csv_path u m ''product_info'') = Some fp"
    and "lookup_file (tree w) (get_csv_path u m ''judgement'') = Some fj"
    and "has_columns fv [''product_id'']"
    and "has_columns fp [''product_id'']"
    and "has_columns fj judgement_header"
    and "rectangular fv" and "rectangular fp" and "rectangular fj"
  shows "\<exists>res yes na no. fst (get_results w (Some u) (Some m)) = Response (ResultMap res) 200
       \<and> counts res = [(Str ''Yes'', yes), (Str ''N/A'', na), (Str ''No'', no)]
       \<and> yes = label_count (DictReader fj) ''Yes''
       \<and> na = label_count (DictReader fj) ''N/A''
       \<and> no = label_count (DictReader fj) ''No''
       \<and> yes + na + no
           = length (filter (\<lambda>r. field r ''label'' \<in> {Str ''Yes'', Str ''N/A'', Str ''No''}) (DictReader fj))
       \<and> length (items res) = length (DictReader fj)"
  using get_results_ok [OF assms(1-8)] label_count_sum [of "DictReader fj"] by simp

theorem results_counts_witness:
  "\<exists>res. fst (get_results example_world (Some ''s'') (Some ''qwen_video_image_raw''))
            = Response (ResultMap res) 200
     \<and> counts res = [(Str ''Yes'', 2), (Str ''N/A'', 1), (Str ''No'', 1)]
     \<and> length (items res) = 5"
proof -
  have h1: "''s'' \<noteq> []" by simp
  have h2: "''qwen_video_image_raw'' \<in> set MODEL_NAMES" by (simp add: MODEL_NAMES_def)
  have h3: "lookup_file (tree example_world) (get_csv_path ''s'' ''qwen_video_image_raw'' ''video_description'')
      = Some example_video_description"
    by (simp add: example_world_def lookup_file_def get_csv_path_def get_model_dir_def)
  have h4: "lookup_file (tree example_world) (get_csv_path ''s'' ''qwen_video_image_raw'' ''product_info'')
      = Some example_product_info"
    by (simp add: example_world_def lookup_file_def get_csv_path_def get_model_dir_def)
  have h5: "lookup_file (tree example_world) (get_csv_path ''s'' ''qwen_video_image_raw'' ''judgement'')
      = Some example_judgement"
    by (simp add: example_world_def lookup_file_def get_csv_path_def get_model_dir_def)
  have h6: "has_columns example_video_description [''product_id'']"
    by (simp add: has_columns_def example_video_description_def)
  have h7: "has_columns example_product_info [''product_id'']"
    by (simp add: has_columns_def example_product_info_def)
  have h8: "has_columns example_judgement judgement_header"
    by (simp add: has_columns_def example_judgement_def)
  have h9: "rectangular example_video_description"
    by (simp add: rectangular_def example_video_description_def)
  have h10: "rectangular example_product_info"
    by (simp add: rectangular_def example_product_info_def)
  have h11: "rectangular example_judgement"
    by (simp add: rectangular_def example_judgement_def judgement_header_def)
  have e: "label_count (DictReader example_judgement) ''Yes'' = 2
      \<and> label_count (DictReader example_judgement) ''N/A'' = 1
      \<and> label_count (DictReader example_judgement) ''No'' = 1
      \<and> length (DictReader example_judgement) = 5"
    by code_simp
  from results_counts [OF h1 h2 h3 h4 h5 h6 h7 h8 h9 h10 h11] obtain res yes na no where
    "fst (get_results example_world (Some ''s'') (Some ''qwen_video_image_raw''))
       = Response (ResultMap res) 200"
    and "counts res = [(Str ''Yes'', yes), (Str ''N/A'', na), (Str ''No'', no)]"
    and "yes = label_count (DictReader example_judgement) ''Yes''"
    and "na = label_count (DictReader example_judgement) ''N/A''"
    and "no = label_count (DictReader example_judgement) ''No''"
    and "length (items res) = length (DictReader example_judgement)"
    by (elim exE conjE)
  then show ?thesis
    using e by (intro exI [of _ res]) simp
qed

text \<open>
  Claim C5. Loading a table with a \<open>product_id\<close> column into the keyed mapping succeeds, and
  for a row \<open>r\<close> with identifier \<open>k\<close> after which no row has the identifier \<open>k\<close>, the mapping's
  entry for \<open>k\<close> is \<open>r\<close> without its \<open>product_id\<close> column, whatever rows with \<open>k\<close> come before.
\<close>

theorem last_row_wins:
  assumes "has_columns f [''product_id'']"
    and "DictReader f = xs @ r # ys"
    and "row_product_id r = Some k"
    and "\<forall>r'\<in>set ys. row_product_id r' \<noteq> Some k"
  shows "\<exists>d. load_keyed (DictReader f) [] = Inr d \<and> dict_get d k = Some (without_product_id r)"
proof -
  have "\<forall>r\<in>set (DictReader f). \<exists>v. getitem r ''product_id'' = Inr v \<and> hashable v"
    using DictReader_columns [OF assms(1)] by simp
  from load_keyed_lookup [OF this, of "[]"] obtain d where d: "load_keyed (DictReader f) [] = Inr d"
    and g: "\<forall>k. dict_get d k = (case lookup_last (DictReader f) k of Some e \<Rightarrow> Some e | None \<Rightarrow> dict_get [] k)"
    by blast
  have "dict_get d k = Some (without_product_id r)"
    using g lookup_last_split [OF assms(3,4), of xs] by (simp add: assms(2))
  then show ?thesis using d by blast
qed

theorem last_row_wins_witness:
  "\<exists>d. load_keyed (DictReader example_duplicates) [] = Inr d
     \<and> dict_get d (Str ''P0001'') = Some [(Some ''brand'', Str ''z'')]"
proof -
  let ?xs = "[reader_row [''product_id'', ''brand''] [''P0001'', ''x''],
              reader_row [''product_id'', ''brand''] [''P0002'', ''y'']]"
  let ?r = "reader_row [''product_id'', ''brand''] [''P0001'', ''z'']"
  have h1: "has_columns example_duplicates [''product_id'']"
    by (simp add: has_columns_def example_duplicates_def)
  have h2: "DictReader example_duplicates = ?xs @ ?r # []"
    by (simp add: DictReader_def example_duplicates_def)
  have h3: "row_product_id ?r = Some (Str ''P0001'')"
    by code_simp
  have h4: "\<forall>r'\<in>set []. row_product_id r' \<noteq> Some (Str ''P0001'')"
    by simp
  have e: "without_product_id ?r = [(Some ''brand'', Str ''z'')]"
    by code_simp
  show ?thesis
    using last_row_wins [OF h1 h2 h3 h4] by (simp only: e)
qed

section \<open>Label override\<close>

lemma dict_set_fresh: "k \<notin> set (dict_keys d) \<Longrightarrow> dict_set d k v = d @ [(k, v)]"
  by (induction d) (auto simp add: dict_keys_def)

lemma fold_pairs_distinct:
  "distinct (map fst (acc @ ps)) \<Longrightarrow> fold (\<lambda>(k, v) d. dict_set d k v) ps acc = acc @ ps"
proof (induction ps arbitrary: acc)
  case Nil
  then show ?case by simp
next
  case (Cons p ps)
  obtain k v where p: "p = (k, v)" by (cases p)
  have "k \<notin> set (dict_keys acc)" using Cons.prems p by (auto simp add: dict_keys_def)
  then have s: "dict_set acc k v = acc @ [(k, v)]" by (rule dict_set_fresh)
  have "distinct (map fst ((acc @ [(k, v)]) @ ps))" using Cons.prems p by simp
  then have "fold (\<lambda>(k, v) d. dict_set d k v) ps (acc @ [(k, v)]) = (acc @ [(k, v)]) @ ps"
    by (rule Cons.IH)
  then show ?case by (simp add: p s)
qed

lemma reader_row_rect:
  assumes "distinct h" and "length r = length h"
  shows "reader_row h r = str_row h r"
proof -
  have "distinct (map fst ([] @ zip (map Some h) (map Str r)))"
    using assms by (simp add: distinct_map)
  then have "dict_of_pairs (zip (map Some h) (map Str r)) = zip (map Some h) (map Str r)"
    unfolding dict_of_pairs_def using fold_pairs_distinct by fastforce
  then show ?thesis using assms(2) by (simp add: reader_row_def str_row_def)
qed


lemma map_of_zip_all:
  "distinct ks \<Longrightarrow> length vs = length ks \<Longrightarrow>
     map (\<lambda>key. case map_of (zip ks vs) key of Some v \<Rightarrow> v | None \<Rightarrow> d) ks = vs"
proof (induction ks arbitrary: vs)
  case Nil
  then show ?case by simp
next
  case (Cons k ks)
  then obtain v vs' where vs: "vs = v # vs'" and len: "length vs' = length ks"
    by (cases vs) auto
  have d: "distinct ks" and nk: "k \<notin> set ks" using Cons.prems(1) by simp_all
  have a: "map (\<lambda>key. case map_of (zip (k # ks) (v # vs')) key of Some v \<Rightarrow> v | None \<Rightarrow> d) ks
      = map (\<lambda>key. case map_of (zip ks vs') key of Some v \<Rightarrow> v | None \<Rightarrow> d) ks"
    by (rule map_cong) (use nk in auto)
  have b: "map (\<lambda>key. case map_of (zip ks vs') key of Some v \<Rightarrow> v | None \<Rightarrow> d) ks = vs'"
    by (rule Cons.IH [OF d len])
  have c: "(case map_of (zip (k # ks) (v # vs')) k of Some v \<Rightarrow> v | None \<Rightarrow> d) = v"
    by simp
  show ?case
    unfolding vs list.map(2) by (simp only: c trans [OF a b])
qed

lemma dict_to_list_str_row:
  assumes "distinct h" and "length s = length h"
  shows "dict_to_list (map Some h) (str_row h s) = Inr (map Str s)"
proof -
  have k: "dict_keys (str_row h s) = map Some h"
    using assms(2) by (simp add: dict_keys_def str_row_def)
  have e: "\<not> list_ex (\<lambda>k. k \<notin> set (map Some h)) (dict_keys (str_row h s))"
    by (simp add: k list_ex_iff)
  have m: "map (\<lambda>key. case dict_get (str_row h s) key of Some v \<Rightarrow> v | None \<Rightarrow> Str []) (map Some h)
      = map Str s"
    unfolding dict_get_def str_row_def
    using assms by (intro map_of_zip_all) (simp_all add: distinct_map)
  show ?thesis
    unfolding dict_to_list_def by (simp only: e if_False m)
qed

lemma cell_text_Str: "map (cell_text py_str) (map Str s) = s"
  by (induction s) (simp_all add: cell_text_def)

lemma writerows_str_rows:
  assumes "distinct h" and "\<forall>s\<in>set ss. length s = length h"
  shows "writerows py_str (map Some h) (map (str_row h) ss) out = (None, out @ ss)"
  using assms(2)
proof (induction ss arbitrary: out)
  case Nil
  then show ?case by simp
next
  case (Cons s ss)
  have a: "dict_to_list (map Some h) (str_row h s) = Inr (map Str s)"
    using dict_to_list_str_row [OF assms(1)] Cons.prems by simp
  have b: "writerows py_str (map Some h) (map (str_row h) ss) (out @ [s]) = (None, (out @ [s]) @ ss)"
    using Cons by simp
  have "writerows py_str (map Some h) (map (str_row h) (s # ss)) out
      = writerows py_str (map Some h) (map (str_row h) ss) (out @ [map (cell_text py_str) (map Str s)])"
    by (simp only: list.map writerows.simps a sum.case)
  then show ?case by (simp only: cell_text_Str b) simp
qed

lemma key_text_Some: "map key_text (map Some h) = h"
  by (induction h) (simp_all add: key_text_def)

lemma rewrite_str_rows:
  assumes "distinct h" and "\<forall>s\<in>set ss. length s = length h" and "ss \<noteq> []"
  shows "rewrite py_str (map (str_row h) ss) = (None, h # ss)"
proof -
  obtain s ss' where ss: "ss = s # ss'" using assms(3) by (cases ss) auto
  have "length s = length h" using assms(2) ss by simp
  then have k: "dict_keys (hd (map (str_row h) ss)) = map Some h"
    by (simp add: ss dict_keys_def str_row_def)
  have w: "writerows py_str (map Some h) (map (str_row h) ss) [h] = (None, [h] @ ss)"
    by (rule writerows_str_rows [OF assms(1,2)])
  show ?thesis
    unfolding rewrite_def Let_def by (simp only: k key_text_Some w) simp
qed

lemma getitem_str_row:
  assumes "k \<in> set h" and "length s = length h"
  shows "\<exists>x. getitem (str_row h s) k = Inr (Str x)"
proof -
  have "Some k \<in> set (map fst (str_row h s))"
    using assms by (simp add: str_row_def)
  then obtain v where v: "map_of (str_row h s) (Some k) = Some v"
    by (metis map_of_eq_None_iff not_Some_eq set_map)
  then have "(Some k, v) \<in> set (zip (map Some h) (map Str s))"
    by (simp add: map_of_SomeD str_row_def)
  then have "v \<in> set (map Str s)" by (rule set_zip_rightD)
  then obtain x where "v = Str x" by auto
  then show ?thesis using v by (simp add: getitem_def dict_get_def)
qed


lemma override_rows_str_rows:
  assumes "''product_id'' \<in> set h" and "\<forall>s\<in>set ss. length s = length h"
  shows "override_rows (JStr k) l (map (str_row h) ss) = Inr (map (override_row k l) (map (str_row h) ss))"
  using assms(2)
proof (induction ss)
  case Nil
  then show ?case by simp
next
  case (Cons s ss)
  then have len: "length s = length h" by simp
  from getitem_str_row [OF assms(1) len] obtain x where x: "getitem (str_row h s) ''product_id'' = Inr (Str x)"
    by blast
  then have p: "row_product_id (str_row h s) = Some (Str x)"
    by (simp add: getitem_def row_product_id_def split: option.splits)
  show ?case
    using Cons x p by (simp add: bind_def py_eq_def override_row_def)
qed


lemma put_file_existing:
  assumes "lookup_file t p = Some c0"
  shows "\<exists>t'. put_file t p c = Some t' \<and> lookup_file t' p = Some c
       \<and> (\<forall>q. q \<noteq> p \<longrightarrow> lookup_file t' q = lookup_file t q)"
proof -
  obtain u m f where p: "p = (u, m, f)" by (cases p)
  from assms p obtain sd md where sd: "t u = Some sd" and md: "sd m = Some md"
    by (auto simp add: lookup_file_def split: option.splits)
  let ?t = "t(u \<mapsto> sd(m \<mapsto> md(f \<mapsto> c)))"
  have a: "put_file t p c = Some ?t" by (simp add: put_file_def p sd md)
  have b: "lookup_file ?t p = Some c" by (simp add: lookup_file_def p)
  have c: "\<forall>q. q \<noteq> p \<longrightarrow> lookup_file ?t q = lookup_file t q"
    by (auto simp add: lookup_file_def p sd md split: option.splits)
  show ?thesis using a b c by blast
qed

lemma DictReader_rect:
  assumes "distinct h" and "h \<noteq> []" and "\<forall>s\<in>set ss. length s = length h"
  shows "DictReader (h # ss) = map (str_row h) ss"
proof -
  have "filter (\<lambda>r. r \<noteq> []) ss = ss"
    using assms(2,3) by (auto simp add: filter_id_conv)
  moreover have "map (reader_row h) ss = map (str_row h) ss"
    using assms(1,3) by (simp add: reader_row_rect)
  ultimately show ?thesis by (simp add: DictReader_def)
qed

lemma put_file_same:
  assumes "lookup_file t p = Some c"
  shows "put_file t p c = Some t"
proof -
  obtain u m f where p: "p = (u, m, f)" by (cases p)
  from assms p obtain sd md where sd: "t u = Some sd" and md: "sd m = Some md" and c: "md f = Some c"
    by (auto simp add: lookup_file_def split: option.splits)
  have "md(f \<mapsto> c) = md" using c by (rule map_upd_triv)
  then have "sd(m \<mapsto> md(f \<mapsto> c)) = sd" using md by (simp add: map_upd_triv)
  then have "t(u \<mapsto> sd(m \<mapsto> md(f \<mapsto> c))) = t" using sd by (simp add: map_upd_triv)
  then show ?thesis by (simp add: put_file_def p sd md)
qed

lemma override_label_core:
  assumes u: "u \<noteq> []" and m: "m \<in> set MODEL_NAMES" and k: "k \<noteq> []"
    and l: "l \<in> set [''Yes'', ''N/A'', ''No'']"
    and f: "lookup_file (tree w) (get_csv_path u m ''judgement'') = Some (h # ss)"
    and d: "distinct h" and pc: "''product_id'' \<in> set h"
    and len: "\<forall>s\<in>set ss. length s = length h"
    and n: "length ss' = length ss" and len': "\<forall>s\<in>set ss'. length s = length h"
    and e: "map (override_row k l) (map (str_row h) ss) = map (str_row h) ss'"
  shows "\<exists>w'. override_label py_str w (JStr u) (JStr m) (JStr k) (JStr l) = (Response OkTrue 200, w')
       \<and> lookup_file (tree w') (get_csv_path u m ''judgement'') = Some (h # ss')
       \<and> (\<forall>q. q \<noteq> get_csv_path u m ''judgement'' \<longrightarrow> lookup_file (tree w') q = lookup_file (tree w) q)
       \<and> (ss' = ss \<longrightarrow> tree w' = tree w)
       \<and> new_events w w' = [Probe (get_csv_path u m ''judgement''), OpenRead (get_csv_path u m ''judgement'')]
            @ (if ss = [] then [] else [OpenWrite (get_csv_path u m ''judgement'')])"
proof -
  let ?p = "get_csv_path u m ''judgement''"
  let ?w1 = "w\<lparr>trace := trace w @ [Probe ?p]\<rparr>"
  let ?w2 = "?w1\<lparr>trace := trace ?w1 @ [OpenRead ?p]\<rparr>"
  have mn: "m \<noteq> []" using m by (rule model_name_nonempty)
  have hn: "h \<noteq> []" using pc by auto
  have pe: "path_exists w ?p = (True, ?w1)" by (simp add: path_exists_def f)
  have rt: "read_table ?w1 ?p = (Inr (map (str_row h) ss), ?w2)"
    by (simp add: read_table_def open_read_def f DictReader_rect [OF d hn len])
  have ov: "override_rows (JStr k) l (map (str_row h) ss) = Inr (map (str_row h) ss')"
    using override_rows_str_rows [OF pc len, of k l] e by simp
  have valid: "truthy (JStr u)" "truthy (JStr m)" "truthy (JStr k)" "truthy (JStr l)"
    "is_in (JStr m) MODEL_NAMES" "is_in (JStr l) [''Yes'', ''N/A'', ''No'']"
    using u mn k l m by (auto simp add: truthy_def is_in_def)
  show ?thesis
  proof (cases "ss = []")
    case True
    then have "ss' = []" using n by simp
    then have "override_label py_str w (JStr u) (JStr m) (JStr k) (JStr l) = (Response OkTrue 200, ?w2)"
      using valid pe rt ov by (simp add: override_label_def Let_def)
    then show ?thesis
      using True f \<open>ss' = []\<close> by (intro exI [of _ ?w2]) (simp add: new_events_def)
  next
    case False
    then have ne: "ss' \<noteq> []" using n by auto
    have rw: "rewrite py_str (map (str_row h) ss') = (None, h # ss')"
      by (rule rewrite_str_rows [OF d len' ne])
    from put_file_existing [of "tree ?w2" ?p "h # ss" "h # ss'"] f obtain t' where
      pf: "put_file (tree ?w2) ?p (h # ss') = Some t'" and lk: "lookup_file t' ?p = Some (h # ss')"
      and fr: "\<forall>q. q \<noteq> ?p \<longrightarrow> lookup_file t' q = lookup_file (tree w) q"
      by auto
    have same: "ss' = ss \<longrightarrow> t' = tree w"
      using pf put_file_same [of "tree ?w2" ?p "h # ss"] f by auto
    let ?w3 = "?w2\<lparr>tree := t', trace := trace ?w2 @ [OpenWrite ?p]\<rparr>"
    have ow: "open_write ?w2 ?p (h # ss') = (None, ?w3)"
      using pf by (simp add: open_write_def)
    have "override_label py_str w (JStr u) (JStr m) (JStr k) (JStr l) = (Response OkTrue 200, ?w3)"
      using valid pe rt ov ne rw ow by (simp add: override_label_def Let_def)
    then show ?thesis
      using False lk fr same
      by (intro exI [of _ ?w3]) (simp add: new_events_def)
  qed
qed

lemma override_row_no_match:
  assumes "\<forall>d\<in>set rows. row_product_id d \<noteq> Some (Str k)"
  shows "map (override_row k l) rows = rows"
  using assms by (induction rows) (simp_all add: override_row_def)



lemma override_label_no_rows:
  assumes u: "u \<noteq> []" and m: "m \<in> set MODEL_NAMES" and k: "k \<noteq> []"
    and l: "l \<in> set [''Yes'', ''N/A'', ''No'']"
    and f: "lookup_file (tree w) (get_csv_path u m ''judgement'') = Some f"
    and e: "DictReader f = []"
  shows "override_label py_str w (JStr u) (JStr m) (JStr k) (JStr l) =
      (Response OkTrue 200,
       w\<lparr>trace := trace w @ [Probe (get_csv_path u m ''judgement''), OpenRead (get_csv_path u m ''judgement'')]\<rparr>)"
proof -
  have mn: "m \<noteq> []" using m by (rule model_name_nonempty)
  show ?thesis
    using u m mn k l
    by (auto simp add: override_label_def truthy_def is_in_def path_exists_def read_table_def
        open_read_def f e Let_def)
qed

lemma override_label_not_found:
  assumes u: "u \<noteq> []" and m: "m \<in> set MODEL_NAMES" and k: "k \<noteq> []"
    and l: "l \<in> set [''Yes'', ''N/A'', ''No'']"
    and f: "lookup_file (tree w) (get_csv_path u m ''judgement'') = None"
  shows "override_label py_str w (JStr u) (JStr m) (JStr k) (JStr l) =
      (Response (OkFalse (Text ''Judgement CSV not found'')) 400,
       w\<lparr>trace := trace w @ [Probe (get_csv_path u m ''judgement'')]\<rparr>)"
proof -
  have mn: "m \<noteq> []" using m by (rule model_name_nonempty)
  show ?thesis
    using u m mn k l
    by (auto simp add: override_label_def truthy_def is_in_def path_exists_def f Let_def)
qed



text \<open>
  Claim C6. With valid parameters: if the judgement table is rectangular with a \<open>product_id\<close>
  column and no row has the identifier, the override reports success and the tree is as before;
  if the table has no data rows, it reports success after an existence probe and one read,
  without opening the file for writing; if the table does not exist, it answers 400 with the
  message that the judgement CSV was not found.
\<close>

theorem override_label_no_match:
  assumes "u \<noteq> []" and "m \<in> set MODEL_NAMES" and "k \<noteq> []"
    and "l \<in> set [''Yes'', ''N/A'', ''No'']"
  shows "(\<forall>f. lookup_file (tree w) (get_csv_path u m ''judgement'') = Some f \<and> rectangular f
            \<and> has_columns f [''product_id'']
            \<and> (\<forall>d\<in>set (DictReader f). row_product_id d \<noteq> Some (Str k)) \<longrightarrow>
          fst (override_label py_str w (JStr u) (JStr m) (JStr k) (JStr l)) = Response OkTrue 200
          \<and> tree (snd (override_label py_str w (JStr u) (JStr m) (JStr k) (JStr l))) = tree w)
       \<and> (\<forall>f. lookup_file (tree w) (get_csv_path u m ''judgement'') = Some f \<and> DictReader f = [] \<longrightarrow>
          override_label py_str w (JStr u) (JStr m) (JStr k) (JStr l) =
            (Response OkTrue 200,
             w\<lparr>trace := trace w @ [Probe (get_csv_path u m ''judgement''),
                                   OpenRead (get_csv_path u m ''judgement'')]\<rparr>))
       \<and> (lookup_file (tree w) (get_csv_path u m ''judgement'') = None \<longrightarrow>
          override_label py_str w (JStr u) (JStr m) (JStr k) (JStr l) =
            (Response (OkFalse (Text ''Judgement CSV not found'')) 400,
             w\<lparr>trace := trace w @ [Probe (get_csv_path u m ''judgement'')]\<rparr>))"
proof (intro conjI allI impI)
  fix f
  assume a: "lookup_file (tree w) (get_csv_path u m ''judgement'') = Some f \<and> rectangular f
            \<and> has_columns f [''product_id'']
            \<and> (\<forall>d\<in>set (DictReader f). row_product_id d \<noteq> Some (Str k))"
  then obtain h ss where f: "f = h # ss" and d: "distinct h"
    and len: "\<forall>s\<in>set ss. length s = length h" and pc: "''product_id'' \<in> set h"
    by (auto simp add: rectangular_def has_columns_def split: list.splits)
  have hn: "h \<noteq> []" using pc by auto
  have lk: "lookup_file (tree w) (get_csv_path u m ''judgement'') = Some (h # ss)"
    using a f by simp
  have "\<forall>d\<in>set (map (str_row h) ss). row_product_id d \<noteq> Some (Str k)"
    using a unfolding f DictReader_rect [OF d hn len] by simp
  then have e: "map (override_row k l) (map (str_row h) ss) = map (str_row h) ss"
    by (rule override_row_no_match)
  from override_label_core [OF assms lk d pc len refl len e, of py_str] obtain w' where
    "override_label py_str w (JStr u) (JStr m) (JStr k) (JStr l) = (Response OkTrue 200, w')"
    and "tree w' = tree w" by blast
  then show "fst (override_label py_str w (JStr u) (JStr m) (JStr k) (JStr l)) = Response OkTrue 200"
    and "tree (snd (override_label py_str w (JStr u) (JStr m) (JStr k) (JStr l))) = tree w"
    by simp_all
next
  fix f
  assume "lookup_file (tree w) (get_csv_path u m ''judgement'') = Some f \<and> DictReader f = []"
  then show "override_label py_str w (JStr u) (JStr m) (JStr k) (JStr l) =
            (Response OkTrue 200,
             w\<lparr>trace := trace w @ [Probe (get_csv_path u m ''judgement''),
                                   OpenRead (get_csv_path u m ''judgement'')]\<rparr>)"
    using override_label_no_rows [OF assms] by blast
next
  assume "lookup_file (tree w) (get_csv_path u m ''judgement'') = None"
  then show "override_label py_str w (JStr u) (JStr m) (JStr k) (JStr l) =
            (Response (OkFalse (Text ''Judgement CSV not found'')) 400,
             w\<lparr>trace := trace w @ [Probe (get_csv_path u m ''judgement'')]\<rparr>)"
    by (rule override_label_not_found [OF assms])
qed

theorem override_label_no_match_witness:
  "fst (override_label (\<lambda>l. []) (judgement_only example_overrides) (JStr ''s'')
          (JStr ''qwen_video_image_raw'') (JStr ''P0009'') (JStr ''No'')) = Response OkTrue 200
   \<and> tree (snd (override_label (\<lambda>l. []) (judgement_only example_overrides) (JStr ''s'')
          (JStr ''qwen_video_image_raw'') (JStr ''P0009'') (JStr ''No'')))
       = tree (judgement_only example_overrides)
   \<and> override_label (\<lambda>l. []) (judgement_only [judgement_header]) (JStr ''s'')
          (JStr ''qwen_video_image_raw'') (JStr ''P0009'') (JStr ''No'') =
       (Response OkTrue 200,
        (judgement_only [judgement_header])
          \<lparr>trace := [Probe (''s'', ''qwen_video_image_raw'', ''judgement.csv''),
                     OpenRead (''s'', ''qwen_video_image_raw'', ''judgement.csv'')]\<rparr>)
   \<and> override_label (\<lambda>l. []) \<lparr>tree = Map.empty, trace = []\<rparr> (JStr ''s'')
          (JStr ''qwen_video_image_raw'') (JStr ''P0009'') (JStr ''No'') =
       (Response (OkFalse (Text ''Judgement CSV not found'')) 400,
        \<lparr>tree = Map.empty, trace = [Probe (''s'', ''qwen_video_image_raw'', ''judgement.csv'')]\<rparr>)"
proof -
  have h1: "''s'' \<noteq> []" by simp
  have h2: "''qwen_video_image_raw'' \<in> set MODEL_NAMES" by (simp add: MODEL_NAMES_def)
  have h3: "''P0009'' \<noteq> []" by simp
  have h4: "''No'' \<in> set [''Yes'', ''N/A'', ''No'']" by simp
  have p: "get_csv_path ''s'' ''qwen_video_image_raw'' ''judgement''
      = (''s'', ''qwen_video_image_raw'', ''judgement.csv'')"
    by (simp add: get_csv_path_def get_model_dir_def)
  note t = override_label_no_match [OF h1 h2 h3 h4, unfolded p]
  have a1: "lookup_file (tree (judgement_only example_overrides))
      (''s'', ''qwen_video_image_raw'', ''judgement.csv'') = Some example_overrides"
    by (simp add: judgement_only_def lookup_file_def)
  have a2: "rectangular example_overrides"
    by (simp add: rectangular_def example_overrides_def)
  have a3: "has_columns example_overrides [''product_id'']"
    by (simp add: has_columns_def example_overrides_def)
  have a4: "\<forall>d\<in>set (DictReader example_overrides). row_product_id d \<noteq> Some (Str ''P0009'')"
    by code_simp
  have b1: "lookup_file (tree (judgement_only [judgement_header]))
      (''s'', ''qwen_video_image_raw'', ''judgement.csv'') = Some [judgement_header]"
    by (simp add: judgement_only_def lookup_file_def)
  have b2: "DictReader [judgement_header] = []"
    by (simp add: DictReader_def)
  have c1: "lookup_file (tree \<lparr>tree = Map.empty, trace = []\<rparr>)
      (''s'', ''qwen_video_image_raw'', ''judgement.csv'') = None"
    by (simp add: lookup_file_def)
  have a: "fst (override_label (\<lambda>l. []) (judgement_only example_overrides) (JStr ''s'')
          (JStr ''qwen_video_image_raw'') (JStr ''P0009'') (JStr ''No'')) = Response OkTrue 200
   \<and> tree (snd (override_label (\<lambda>l. []) (judgement_only example_overrides) (JStr ''s'')
          (JStr ''qwen_video_image_raw'') (JStr ''P0009'') (JStr ''No'')))
       = tree (judgement_only example_overrides)"
    using t [of "judgement_only example_overrides" "\<lambda>l. []"] a1 a2 a3 a4 by blast
  have b: "override_label (\<lambda>l. []) (judgement_only [judgement_header]) (JStr ''s'')
          (JStr ''qwen_video_image_raw'') (JStr ''P0009'') (JStr ''No'') =
       (Response OkTrue 200,
        (judgement_only [judgement_header])
          \<lparr>trace := trace (judgement_only [judgement_header])
             @ [Probe (''s'', ''qwen_video_image_raw'', ''judgement.csv''),
                     OpenRead (''s'', ''qwen_video_image_raw'', ''judgement.csv'')]\<rparr>)"
    using t [of "judgement_only [judgement_header]" "\<lambda>l. []"] b1 b2 by blast
  have c: "override_label (\<lambda>l. []) \<lparr>tree = Map.empty, trace = []\<rparr> (JStr ''s'')
          (JStr ''qwen_video_image_raw'') (JStr ''P0009'') (JStr ''No'') =
       (Response (OkFalse (Text ''Judgement CSV not found'')) 400,
        \<lparr>tree = Map.empty, trace = []\<rparr>\<lparr>trace := trace \<lparr>tree = Map.empty, trace = []\<rparr>
           @ [Probe (''s'', ''qwen_video_image_raw'', ''judgement.csv'')]\<rparr>)"
    using t [of "\<lparr>tree = Map.empty, trace = []\<rparr>" "\<lambda>l. []"] c1 by blast
  show ?thesis
    using a b c by (simp add: judgement_only_def)
qed

end
